theory Spec2Isabelle
  imports Complex_Main
begin

section \<open>Go results and errors\<close>

text \<open>
  A Go function returning \<open>(T, error)\<close> is modelled by a value of \<open>go_error + T\<close>.
  \<open>Errorf\<close> is an ordinary error value (\<open>fmt.Errorf\<close>), \<open>Panic\<close> a run-time panic
  and \<open>Fatal\<close> a call of \<open>log.Fatalf\<close>, which ends the process.
\<close>

datatype go_error = Errorf string | Panic string | Fatal string

section \<open>strconv.Atoi\<close>

text \<open>
  \<open>strconv.Atoi\<close> of the Go standard library on a 64-bit platform: an optional sign,
  then at least one decimal digit, and the value has to fit an \<open>int\<close>. The loop of
  its fast path is \<open>n = n*10 + int(ch - '0')\<close>. \<open>None\<close> stands for a non-nil
  \<open>*NumError\<close> (syntax or range).
\<close>

definition is_digit :: "char \<Rightarrow> bool" where
  "is_digit ch \<longleftrightarrow> (48::nat) \<le> of_char ch \<and> of_char ch \<le> (57::nat)"

definition digit_of :: "char \<Rightarrow> nat" where
  "digit_of ch = of_char ch - 48"

definition atoi_loop :: "string \<Rightarrow> nat" where
  "atoi_loop s = foldl (\<lambda>n ch. n * 10 + digit_of ch) 0 s"

definition Atoi :: "string \<Rightarrow> int option" where
  "Atoi s0 =
     (if s0 = [] then None
      else let s = (if hd s0 = CHR ''-'' \<or> hd s0 = CHR ''+'' then tl s0 else s0) in
        if s = [] then None
        else if \<not> list_all is_digit s then None
        else let n = (if hd s0 = CHR ''-'' then - int (atoi_loop s) else int (atoi_loop s)) in
          if n < - (2 ^ 63) \<or> 2 ^ 63 \<le> n then None else Some n)"

section \<open>Vault id extraction\<close>

text \<open>
  \<open>service.Log\<close>: the contract role and the decoded payload, which is a pointer to a
  map in the Go type and so may be nil.
\<close>

record Log =
  Contract :: string
  Decoded :: "(string \<rightharpoonup> string) option"

fun getVaultId :: "Log list \<Rightarrow> go_error + int" where
  "getVaultId [] = Inr 0"
| "getVaultId (l # logs) =
     (if Contract l = ''Cdpmanager'' then
        (case Decoded l of
           None \<Rightarrow> Inl (Panic ''invalid memory address or nil pointer dereference'')
         | Some payload \<Rightarrow>
            (case payload ''Cdp'' of
               None \<Rightarrow> Inl (Errorf ''failed to get vault id from log'')
             | Some vaultIdStr \<Rightarrow>
                (case Atoi vaultIdStr of
                   None \<Rightarrow> Inl (Errorf ''failed to convert vault id to int'')
                 | Some vaultId \<Rightarrow> Inr vaultId)))
      else getVaultId logs)"

text \<open>
  What the specification calls a decimal integer, stated independently of the parser:
  an optional sign followed by one or more digits, with its positional value.
\<close>

definition unsigned_part :: "string \<Rightarrow> string" where
  "unsigned_part s = (case s of [] \<Rightarrow> [] | c # cs \<Rightarrow> if c = CHR ''-'' \<or> c = CHR ''+'' then cs else s)"

definition is_decimal_integer :: "string \<Rightarrow> bool" where
  "is_decimal_integer s \<longleftrightarrow> unsigned_part s \<noteq> [] \<and> (\<forall>c \<in> set (unsigned_part s). is_digit c)"

definition positional_value :: "string \<Rightarrow> nat" where
  "positional_value ds = (\<Sum>i < length ds. digit_of (ds ! i) * 10 ^ (length ds - 1 - i))"

definition decimal_integer_value :: "string \<Rightarrow> int" where
  "decimal_integer_value s =
     (case s of [] \<Rightarrow> 0
      | c # cs \<Rightarrow> if c = CHR ''-'' then - int (positional_value cs)
                 else int (positional_value (unsigned_part s)))"

definition fits_int64 :: "int \<Rightarrow> bool" where
  "fits_int64 n \<longleftrightarrow> - (2 ^ 63) \<le> n \<and> n < 2 ^ 63"

definition is_cdpmanager :: "Log \<Rightarrow> bool" where
  "is_cdpmanager l \<longleftrightarrow> Contract l = ''Cdpmanager''"

section \<open>Response classifier\<close>

text \<open>
  The error bodies of the remote API. The Go types \<open>UserError\<close> and \<open>Error\<close> are
  generated from the wire format
  \<open>{"messages": {locale: {"userMessage": .., "solutions": [..]}}}\<close> and
  \<open>{"msg": .., "reasons": [..]}\<close>.
\<close>

record LocalizedMessage =
  UserMessage :: string
  Solutions :: "string list"

record UserError =
  Messages :: "string \<rightharpoonup> LocalizedMessage"

record Error =
  Msg :: string
  Reasons :: "string list"

text \<open>The dynamic \<open>Details interface{}\<close> field holds one of three shapes, or nil.\<close>

datatype details =
    NoDetails
  | DetailsUserError UserError
  | DetailsError Error
  | DetailsString string

record APIError =
  StatusCode :: int
  Message :: string
  Details :: details
  RequestID :: string
  Path :: string
  Method :: string
  ErrorContext :: "(string \<rightharpoonup> string) option"

text \<open>
  The part of \<open>*http.Response\<close> the classifier reads: the status, the
  \<open>X-Request-ID\<close> header, the request's path and method, and what \<open>io.ReadAll\<close>
  gives for the body (the bytes, or a read error). The request of a response is
  taken to be present.
\<close>

record http_response =
  resp_StatusCode :: int
  resp_RequestID :: string
  resp_Path :: string
  resp_Method :: string
  resp_Body :: "go_error + string"

fun error_text :: "go_error \<Rightarrow> string" where
  "error_text (Errorf m) = m"
| "error_text (Panic m) = m"
| "error_text (Fatal m) = m"

text \<open>
  \<open>service.HandleAPIResponse\<close>. \<open>json.Unmarshal\<close> belongs to the standard library
  and is a parameter: \<open>unmarshalT body v\<close> decodes into the caller's success value
  \<open>v\<close> and returns the error, if any, with the value as it then is;
  \<open>unmarshalUserError\<close> and \<open>unmarshalError\<close> decode into fresh values of the two
  error shapes. The result is the returned error (\<open>None\<close> for nil) and the caller's
  success value.
\<close>

definition HandleAPIResponse ::
  "(string \<Rightarrow> 'T \<Rightarrow> go_error option \<times> 'T) \<Rightarrow> (string \<Rightarrow> go_error + UserError) \<Rightarrow>
   (string \<Rightarrow> go_error + Error) \<Rightarrow> http_response option \<Rightarrow> 'T \<Rightarrow> APIError option \<times> 'T" where
  "HandleAPIResponse unmarshalT unmarshalUserError unmarshalError resp successResponse =
    (case resp of
       None \<Rightarrow>
         (Some \<lparr>StatusCode = 500, Message = ''nil response received'', Details = NoDetails,
                RequestID = [], Path = [], Method = [], ErrorContext = None\<rparr>, successResponse)
     | Some r \<Rightarrow>
        (let requestID = resp_RequestID r; path = resp_Path r; method = resp_Method r in
         case resp_Body r of
           Inl err \<Rightarrow>
             (Some \<lparr>StatusCode = 500, Message = ''failed to read response body'',
                    Details = DetailsString (error_text err),
                    RequestID = requestID, Path = path, Method = method, ErrorContext = None\<rparr>,
              successResponse)
         | Inr bodyBytes \<Rightarrow>
            if resp_StatusCode r \<ge> 200 \<and> resp_StatusCode r < 300 then
              (case unmarshalT bodyBytes successResponse of
                 (Some err, v) \<Rightarrow>
                   (Some \<lparr>StatusCode = resp_StatusCode r,
                          Message = ''failed to parse success response'',
                          Details = DetailsString (error_text err),
                          RequestID = requestID, Path = path, Method = method,
                          ErrorContext = None\<rparr>, v)
               | (None, v) \<Rightarrow> (None, v))
            else
              (let apiError = \<lparr>StatusCode = resp_StatusCode r, Message = [], Details = NoDetails,
                                RequestID = requestID, Path = path, Method = method,
                                ErrorContext = None\<rparr> in
               case (case unmarshalUserError bodyBytes of
                       Inr userError \<Rightarrow>
                         if Messages userError \<noteq> Map.empty then Some userError else None
                     | Inl _ \<Rightarrow> None) of
                 Some userError \<Rightarrow>
                   (Some (apiError\<lparr>Message := ''User error'',
                                   Details := DetailsUserError userError\<rparr>), successResponse)
               | None \<Rightarrow>
                  (case (case unmarshalError bodyBytes of
                           Inr genericError \<Rightarrow>
                             if Msg genericError \<noteq> [] then Some genericError else None
                         | Inl _ \<Rightarrow> None) of
                     Some genericError \<Rightarrow>
                       (Some (apiError\<lparr>Message := Msg genericError,
                                       Details := DetailsError genericError\<rparr>), successResponse)
                   | None \<Rightarrow>
                       (Some (apiError\<lparr>Message := ''Unhandled error'',
                                       Details := DetailsString bodyBytes\<rparr>), successResponse)))))"

text \<open>
  \<open>examples.HandleAPIResponse\<close> (errorHandler.go): its own three-field \<open>APIError\<close>,
  plain \<open>fmt.Errorf\<close> errors for a body that cannot be read or parsed, and no nil
  check (the deferred \<open>resp.Body.Close()\<close> dereferences \<open>resp\<close>).
\<close>

record ExAPIError =
  ex_StatusCode :: int
  ex_Message :: string
  ex_Details :: details

datatype handler_error = Plain go_error | Classified ExAPIError

definition ex_HandleAPIResponse ::
  "(string \<Rightarrow> 'T \<Rightarrow> go_error option \<times> 'T) \<Rightarrow> (string \<Rightarrow> go_error + UserError) \<Rightarrow>
   (string \<Rightarrow> go_error + Error) \<Rightarrow> http_response option \<Rightarrow> 'T \<Rightarrow> handler_error option \<times> 'T" where
  "ex_HandleAPIResponse unmarshalT unmarshalUserError unmarshalError resp successResponse =
    (case resp of
       None \<Rightarrow>
         (Some (Plain (Panic ''invalid memory address or nil pointer dereference'')),
          successResponse)
     | Some r \<Rightarrow>
        (case resp_Body r of
           Inl err \<Rightarrow>
             (Some (Plain (Errorf (''failed to read response body: '' @ error_text err))),
              successResponse)
         | Inr bodyBytes \<Rightarrow>
            if resp_StatusCode r \<ge> 200 \<and> resp_StatusCode r < 300 then
              (case unmarshalT bodyBytes successResponse of
                 (Some err, v) \<Rightarrow>
                   (Some (Plain (Errorf (''failed to parse success response: '' @ error_text err))),
                    v)
               | (None, v) \<Rightarrow> (None, v))
            else
              (case (case unmarshalUserError bodyBytes of
                       Inr userError \<Rightarrow>
                         if Messages userError \<noteq> Map.empty then Some userError else None
                     | Inl _ \<Rightarrow> None) of
                 Some userError \<Rightarrow>
                   (Some (Classified \<lparr>ex_StatusCode = resp_StatusCode r,
                                       ex_Message = ''User error'',
                                       ex_Details = DetailsUserError userError\<rparr>),
                    successResponse)
               | None \<Rightarrow>
                  (case (case unmarshalError bodyBytes of
                           Inr genericError \<Rightarrow>
                             if Msg genericError \<noteq> [] then Some genericError else None
                         | Inl _ \<Rightarrow> None) of
                     Some genericError \<Rightarrow>
                       (Some (Classified \<lparr>ex_StatusCode = resp_StatusCode r,
                                           ex_Message = ''API error'',
                                           ex_Details = DetailsError genericError\<rparr>),
                        successResponse)
                   | None \<Rightarrow>
                       (Some (Classified \<lparr>ex_StatusCode = resp_StatusCode r,
                                           ex_Message = ''Unhandled error'',
                                           ex_Details = DetailsString bodyBytes\<rparr>),
                        successResponse)))))"

text \<open>
  The two error shapes as the specification words them: the body decodes as the shape
  and carries at least one localized message, respectively a non-empty top-level
  message.
\<close>

definition user_error_shape :: "(string \<Rightarrow> go_error + UserError) \<Rightarrow> string \<Rightarrow> UserError \<Rightarrow> bool" where
  "user_error_shape dec body u \<longleftrightarrow> dec body = Inr u \<and> dom (Messages u) \<noteq> {}"

definition generic_error_shape :: "(string \<Rightarrow> go_error + Error) \<Rightarrow> string \<Rightarrow> Error \<Rightarrow> bool" where
  "generic_error_shape dec body g \<longleftrightarrow> dec body = Inr g \<and> Msg g \<noteq> []"

section \<open>Native amount converter\<close>

text \<open>
  A \<open>float64\<close> is a sign, a mantissa and a binary exponent (the value is
  \<open>\<plusminus> m * 2^e\<close>), an infinity or NaN. The finite values of the format are those with
  a mantissa below \<open>2^53\<close> and an exponent between -1074 and 971.
\<close>

datatype float64 = Float64 bool nat int | Float64Inf bool | Float64NaN

definition is_float64 :: "float64 \<Rightarrow> bool" where
  "is_float64 x = (case x of
      Float64 s m e \<Rightarrow> m < 2 ^ 53 \<and> - 1074 \<le> e \<and> e \<le> 971
    | _ \<Rightarrow> True)"

text \<open>
  \<open>big.Float\<close> of the Go standard library, as far as \<open>toNative\<close> uses it. Every
  \<open>Float\<close> here starts with precision 0, so \<open>SetFloat64\<close> gives it precision 53 and
  holds the argument exactly; the receiver of \<open>Mul\<close> has precision 53 and the default
  rounding mode, so the product is rounded to 53 bits, to nearest with ties to even.
  The exponent of a \<open>big.Float\<close> is a 32-bit integer, which products of two finite
  \<open>float64\<close> values never overflow.
\<close>

datatype Float = BigFloat bool nat int | BigInf bool

datatype Accuracy = Below | Exact | Above

fun bit_length :: "nat \<Rightarrow> nat" where
  "bit_length n = (if n = 0 then 0 else Suc (bit_length (n div 2)))"

declare bit_length.simps [simp del]

definition round_mantissa :: "nat \<Rightarrow> nat \<Rightarrow> int \<Rightarrow> nat \<times> int" where
  "round_mantissa prec m e =
     (if bit_length m \<le> prec then (m, e)
      else let s = bit_length m - prec;
               q = m div 2 ^ s;
               r = m mod 2 ^ s;
               half = 2 ^ (s - 1)
           in (if half < r \<or> (r = half \<and> odd q) then q + 1 else q, e + int s))"

definition SetFloat64 :: "float64 \<Rightarrow> go_error + Float" where
  "SetFloat64 x = (case x of
      Float64 s m e \<Rightarrow> Inr (BigFloat s m e)
    | Float64Inf s \<Rightarrow> Inr (BigInf s)
    | Float64NaN \<Rightarrow> Inl (Panic ''Float.SetFloat64(NaN)''))"

fun Float_Mul :: "Float \<Rightarrow> Float \<Rightarrow> go_error + Float" where
  "Float_Mul (BigFloat s1 m1 e1) (BigFloat s2 m2 e2) =
     (case round_mantissa 53 (m1 * m2) (e1 + e2) of (m, e) \<Rightarrow> Inr (BigFloat (s1 \<noteq> s2) m e))"
| "Float_Mul (BigInf s1) (BigFloat s2 m2 e2) =
     (if m2 = 0 then Inl (Panic ''multiplication of zero with infinity'')
      else Inr (BigInf (s1 \<noteq> s2)))"
| "Float_Mul (BigFloat s1 m1 e1) (BigInf s2) =
     (if m1 = 0 then Inl (Panic ''multiplication of zero with infinity'')
      else Inr (BigInf (s1 \<noteq> s2)))"
| "Float_Mul (BigInf s1) (BigInf s2) = Inr (BigInf (s1 \<noteq> s2))"

text \<open>
  \<open>Float.Int\<close>: the value truncated towards zero, with accuracy \<open>Exact\<close> when the
  value is an integer, otherwise \<open>Below\<close> for a positive and \<open>Above\<close> for a negative
  value; nil for an infinity.
\<close>

fun Float_Int :: "Float \<Rightarrow> int option \<times> Accuracy" where
  "Float_Int (BigFloat s m e) =
     (if 0 \<le> e then (Some ((if s then - 1 else 1) * int (m * 2 ^ nat e)), Exact)
      else (Some ((if s then - 1 else 1) * int (m div 2 ^ nat (- e))),
            if m mod 2 ^ nat (- e) = 0 then Exact else if s then Above else Below))"
| "Float_Int (BigInf s) = (None, if s then Above else Below)"

text \<open>\<open>big.Int.String\<close>: the decimal digits, with a minus sign for a negative value.\<close>

fun nat_String :: "nat \<Rightarrow> string" where
  "nat_String n =
     (if n < 10 then [char_of (48 + n)] else nat_String (n div 10) @ [char_of (48 + n mod 10)])"

declare nat_String.simps [simp del]

definition Int_String :: "int option \<Rightarrow> string" where
  "Int_String z = (case z of
      None \<Rightarrow> ''<nil>''
    | Some i \<Rightarrow> if i < 0 then CHR ''-'' # nat_String (nat (- i)) else nat_String (nat i))"

text \<open>
  \<open>math.Pow10 p\<close> as a \<open>float64\<close>. The powers up to \<open>10^22\<close> are exact in the format
  and the library's table holds the correctly rounded constants up to \<open>10^31\<close>; the
  precision map below only ever holds 18.
\<close>

definition Pow10 :: "nat \<Rightarrow> float64" where
  "Pow10 p = (case round_mantissa 53 (5 ^ p) (int p) of (m, e) \<Rightarrow> Float64 False m e)"

text \<open>
  The conversion both \<open>toNative\<close> functions share (vault creation with the precision
  \<open>p\<close> of the symbol, repayment with 18).
\<close>

definition scaleToNative :: "nat \<Rightarrow> float64 \<Rightarrow> go_error + string" where
  "scaleToNative p amount =
     (case SetFloat64 amount of
        Inl err \<Rightarrow> Inl err
      | Inr floatAmount \<Rightarrow>
         (case SetFloat64 (Pow10 p) of
            Inl err \<Rightarrow> Inl err
          | Inr scale \<Rightarrow>
             (case Float_Mul floatAmount scale of
                Inl err \<Rightarrow> Inl err
              | Inr product \<Rightarrow>
                 (case Float_Int product of
                    (scaledAmount, accuracy) \<Rightarrow>
                      if accuracy \<noteq> Exact then Inl (Errorf ''lost precision during conversion'')
                      else Inr (Int_String scaledAmount)))))"

text \<open>
  \<open>toNative\<close> of the vault creation example. \<open>symbols\<close> is what \<open>getIlksSymbol\<close>
  returned for the client.
\<close>

definition precision_map :: "string list \<Rightarrow> (string \<rightharpoonup> nat)" where
  "precision_map symbols = foldl (\<lambda>precision s. precision(s \<mapsto> 18)) [''ZAR'' \<mapsto> 18] symbols"

definition toNative :: "go_error + string list \<Rightarrow> string \<Rightarrow> float64 \<Rightarrow> go_error + string" where
  "toNative symbols symbol amount =
     (case symbols of
        Inl err \<Rightarrow> Inl (Errorf (''failed to get symbols: '' @ error_text err))
      | Inr syms \<Rightarrow>
         (case precision_map syms symbol of
            None \<Rightarrow> Inl (Errorf (''unknown symbol: '' @ symbol))
          | Some p \<Rightarrow> scaleToNative p amount))"

text \<open>\<open>toNative\<close> of the repayment example.\<close>

definition toNative_repay :: "float64 \<Rightarrow> go_error + string" where
  "toNative_repay amount = scaleToNative 18 amount"

text \<open>
  The exact values, as rationals, that the specification speaks about: the value of a
  finite \<open>float64\<close> and of a finite \<open>big.Float\<close>.
\<close>

definition dyadic :: "bool \<Rightarrow> nat \<Rightarrow> int \<Rightarrow> rat" where
  "dyadic s m e = (if s then - 1 else 1) * of_nat m * 2 powi e"

fun float64_value :: "float64 \<Rightarrow> rat" where
  "float64_value (Float64 s m e) = dyadic s m e"
| "float64_value _ = 0"

fun Float_value :: "Float \<Rightarrow> rat" where
  "Float_value (BigFloat s m e) = dyadic s m e"
| "Float_value _ = 0"

section \<open>Transaction log\<close>

text \<open>
  The two examples declare the same pair of structs; the amount is an \<open>int\<close> in one
  and a \<open>*big.Int\<close> in the other.
\<close>

record EthereumTransaction =
  From :: string
  To :: string
  Value :: int
  Gas :: int
  GasPrice :: int
  Nonce :: nat
  ChainID :: int
  Data :: string

record TransactionDetails =
  Timestamp :: string
  Tx :: EthereumTransaction
  TxHash :: string
  VaultID :: int

text \<open>
  The backing file. \<open>encoding/json\<close> is not modelled: a file is absent, holds the
  JSON encoding of a sequence of entries, holds something that does not decode, or
  cannot be opened. \<open>can_create\<close> and \<open>can_write\<close> say whether the file system lets the
  file be created (truncated) and written.
\<close>

datatype log_file = Absent | Holds "TransactionDetails list" | Malformed | Unopenable

record file_system =
  can_create :: bool
  can_write :: bool

text \<open>The block \<open>Read existing data\<close> of \<open>SaveTransactionDetails\<close>.\<close>

fun readExisting :: "log_file \<Rightarrow> go_error + TransactionDetails list" where
  "readExisting Absent = Inr []"
| "readExisting (Holds existingData) = Inr existingData"
| "readExisting Malformed = Inl (Errorf ''failed to decode existing data'')"
| "readExisting Unopenable = Inl (Errorf ''failed to open transaction_log.json'')"

text \<open>\<open>now\<close> is \<open>time.Now().Format(time.RFC3339)\<close>.\<close>

definition SaveTransactionDetails ::
  "string \<Rightarrow> file_system \<Rightarrow> log_file \<Rightarrow> EthereumTransaction \<Rightarrow> string \<Rightarrow> int
     \<Rightarrow> go_error option \<times> log_file" where
  "SaveTransactionDetails now fs file tx txHash vaultID =
     (let transactionData = \<lparr>Timestamp = now, Tx = tx, TxHash = txHash, VaultID = vaultID\<rparr> in
      case readExisting file of
        Inl err \<Rightarrow> (Some err, file)
      | Inr existingData \<Rightarrow>
          if \<not> can_create fs then (Some (Errorf ''failed to create transaction_log.json''), file)
          else if \<not> can_write fs then (Some (Errorf ''failed to write transaction data''), Malformed)
          else (None, Holds (existingData @ [transactionData])))"

text \<open>
  The block of \<open>CreateVaultExample\<close> that patches the vault id of the last entry:
  \<open>os.ReadFile\<close>, \<open>json.Unmarshal\<close>, the update, \<open>json.MarshalIndent\<close>,
  \<open>os.WriteFile\<close>; every failure is a \<open>log.Fatalf\<close>.
\<close>

definition PatchLastVaultId :: "file_system \<Rightarrow> log_file \<Rightarrow> int \<Rightarrow> go_error option \<times> log_file" where
  "PatchLastVaultId fs file vaultId =
     (case file of
        Absent \<Rightarrow> (Some (Fatal ''Error reading file''), file)
      | Unopenable \<Rightarrow> (Some (Fatal ''Error reading file''), file)
      | Malformed \<Rightarrow> (Some (Fatal ''Error unmarshalling JSON''), file)
      | Holds transactions \<Rightarrow>
          (let updated =
             (if length transactions > 0
              then transactions[length transactions - 1 :=
                     (transactions ! (length transactions - 1))\<lparr>VaultID := vaultId\<rparr>]
              else transactions)
           in if \<not> can_create fs then (Some (Fatal ''Error writing to file''), file)
              else if \<not> can_write fs then (Some (Fatal ''Error writing to file''), Malformed)
              else (None, Holds updated)))"

section \<open>Waiting for a receipt\<close>

text \<open>
  \<open>waitForTransactionReceipt\<close> reads the clock (\<open>time.Now\<close>, \<open>time.Since\<close>), queries
  the chain and sleeps. Time is an integer count of nanoseconds, as \<open>time.Duration\<close>
  is. The chain answers the \<open>k\<close>-th query with \<open>TransactionReceipt k\<close>; \<open>latency k\<close> is
  the time that passes in the \<open>k\<close>-th round beyond the sleep itself (the blocking
  query, which has no deadline of its own). \<open>time.Sleep\<close> returns at once for a
  duration that is not positive. A loop that never ends is the value \<open>None\<close>. The
  result is the receipt or the error, with the time at which the function returns.
  The error text of the source also names the number of seconds waited for.
\<close>

record Receipt =
  Status :: nat
  BlockNumber :: nat

datatype poll_result = ReceiptFound Receipt | ReceiptNotFound | ReceiptError string

partial_function (option) wait_loop ::
  "(nat \<Rightarrow> poll_result) \<Rightarrow> (nat \<Rightarrow> int) \<Rightarrow> int \<Rightarrow> int \<Rightarrow> int \<Rightarrow> nat \<Rightarrow> int
     \<Rightarrow> ((go_error + Receipt) \<times> int) option" where
  "wait_loop TransactionReceipt latency maxWaitTime checkInterval startTime k now =
     (if now - startTime < maxWaitTime then
        (case TransactionReceipt k of
           ReceiptFound receipt \<Rightarrow> Some (Inr receipt, now + latency k)
         | _ \<Rightarrow> wait_loop TransactionReceipt latency maxWaitTime checkInterval startTime (Suc k)
                 (now + latency k + max 0 checkInterval))
      else Some (Inl (Errorf ''transaction not mined''), now))"

definition waitForTransactionReceipt ::
  "(nat \<Rightarrow> poll_result) \<Rightarrow> (nat \<Rightarrow> int) \<Rightarrow> int \<Rightarrow> int \<Rightarrow> int \<Rightarrow> ((go_error + Receipt) \<times> int) option" where
  "waitForTransactionReceipt TransactionReceipt latency maxWaitTime checkInterval startTime =
     wait_loop TransactionReceipt latency maxWaitTime checkInterval startTime 0 startTime"

text \<open>
  The time at which query number \<open>n\<close> starts when no earlier query has found a
  receipt, and whether a query result is a receipt.
\<close>

fun poll_time :: "(nat \<Rightarrow> int) \<Rightarrow> int \<Rightarrow> int \<Rightarrow> nat \<Rightarrow> int" where
  "poll_time latency checkInterval startTime 0 = startTime"
| "poll_time latency checkInterval startTime (Suc n) =
     poll_time latency checkInterval startTime n + latency n + max 0 checkInterval"

definition is_found :: "poll_result \<Rightarrow> bool" where
  "is_found p = (case p of ReceiptFound _ \<Rightarrow> True | _ \<Rightarrow> False)"

declare wait_loop.simps [code]

section \<open>Step-wise transaction executor\<close>

text \<open>
  The plan the remote API answers with (\<open>service.ChainActivity\<close>) and its steps. The
  data of a step is a union; \<open>AsPreparedTx\<close> decodes it as a prepared transaction or
  fails.
\<close>

record MethodParams =
  mp_To :: string
  mp_Calldata :: string
  mp_Value :: string

record PreparedTx =
  Label :: "string \<rightharpoonup> string"
  MethodParameters :: MethodParams
  GasUseEstimate :: int

datatype StepData = PreparedTxData PreparedTx | OtherData string

record Step =
  step_Data :: StepData

record ChainActivity =
  NumberOfSteps :: int
  StepNumber :: int
  Steps :: "Step list"

fun AsPreparedTx :: "StepData \<Rightarrow> go_error + PreparedTx" where
  "AsPreparedTx (PreparedTxData body) = Inr body"
| "AsPreparedTx (OtherData raw) = Inl (Errorf ''json: cannot unmarshal'')"

text \<open>\<open>label["en-US"]\<close>: a missing key of a Go map reads as the empty string.\<close>

definition label_en :: "PreparedTx \<Rightarrow> string" where
  "label_en data = (case Label data ''en-US'' of None \<Rightarrow> [] | Some l \<Rightarrow> l)"

text \<open>
  \<open>new(big.Int).SetString(s, 10)\<close>: an optional sign and at least one decimal digit,
  of any size.
\<close>

definition SetString10 :: "string \<Rightarrow> int option" where
  "SetString10 s0 =
     (if s0 = [] then None
      else let s = (if hd s0 = CHR ''-'' \<or> hd s0 = CHR ''+'' then tl s0 else s0) in
        if s = [] then None
        else if \<not> list_all is_digit s then None
        else Some (if hd s0 = CHR ''-'' then - int (atoi_loop s) else int (atoi_loop s)))"

text \<open>
  The conversion \<open>uint64(gas)\<close> of a Go \<open>int\<close>: a negative value wraps around.
\<close>

definition uint64 :: "int \<Rightarrow> int" where
  "uint64 n = n mod 2 ^ 64"

text \<open>
  The unsigned transaction that \<open>types.NewTransaction\<close> builds; its gas limit is a
  \<open>uint64\<close>.
\<close>

record Transaction =
  tx_nonce :: nat
  tx_to :: string
  tx_value :: int
  tx_gas :: int
  tx_gasPrice :: int
  tx_data :: string

text \<open>What the examples print that matters here.\<close>

datatype console_line =
    StepLabel nat string
  | Processing
  | TransactionSent string
  | Mined string nat
  | NotMined string
  | VaultCreated string int
  | DetailsUpdated
  | NoStepsFound

text \<open>
  The world the examples act on: the clock, the transactions broadcast to the chain
  so far (each with the hash of its signed form), the log file, the console, and the
  number of plans requested from the remote API.
\<close>

record world =
  clock :: int
  broadcast :: "(Transaction \<times> string) list"
  logfile :: log_file
  console :: "console_line list"
  polls :: nat

text \<open>
  The collaborators. \<open>getVaultTxSteps\<close>, with the arguments the example fixes, is
  the plan the remote API answers with in the current world, or the error of any of
  its failure paths. The others are the calls on the Ethereum client, the signer, the
  log query of the API, \<open>hexutil.Decode\<close>, the formatting of the current time and the
  file system. The receipt queries for a transaction hash are numbered from 0, each
  with its result and the time it takes.
\<close>

record env =
  getVaultTxSteps :: "world \<Rightarrow> go_error + ChainActivity"
  PendingNonceAt :: "world \<Rightarrow> go_error + nat"
  SuggestGasPrice :: "world \<Rightarrow> go_error + int"
  SignTx :: "Transaction \<Rightarrow> go_error + string"
  SendTransaction :: "world \<Rightarrow> Transaction \<Rightarrow> string \<Rightarrow> go_error option"
  TransactionReceipt :: "string \<Rightarrow> nat \<Rightarrow> poll_result"
  rpc_latency :: "string \<Rightarrow> nat \<Rightarrow> int"
  getLogs :: "world \<Rightarrow> string \<Rightarrow> go_error + Log list"
  hexutil_Decode :: "string \<Rightarrow> go_error + string"
  time_Format :: "int \<Rightarrow> string"
  files :: file_system
  chainID :: int
  WALLET_ADDRESS :: string
  VAULT_ID :: int

definition println :: "console_line \<Rightarrow> world \<Rightarrow> world" where
  "println line w = w\<lparr>console := console w @ [line]\<rparr>"

definition second :: int where
  "second = 1000000000"

text \<open>
  The body of \<open>if (stepNumber - 1) == number\<close> in \<open>CreateVaultExample\<close>. The result
  is \<open>None\<close> when the wait for the receipt never returns; otherwise the fatal error,
  if any, the world and the value of \<open>txHash\<close>.
\<close>

definition create_process ::
  "env \<Rightarrow> PreparedTx \<Rightarrow> world \<Rightarrow> string \<Rightarrow> (go_error option \<times> world \<times> string) option" where
  "create_process e data w0 txHash0 =
    (let w = println Processing w0;
         methodParams = MethodParameters data;
         addressTo = mp_To methodParams;
         calldata = mp_Calldata methodParams;
         valueStr = mp_Value methodParams
     in case Atoi valueStr of
          None \<Rightarrow> Some (Some (Fatal ''failed to convert vault id to int''), w, txHash0)
        | Some value \<Rightarrow>
      (case PendingNonceAt e w of
          Inl err \<Rightarrow> Some (Some (Fatal ''Failed to get transaction count''), w, txHash0)
        | Inr nonce \<Rightarrow>
      (let gas = GasUseEstimate data in
       case SuggestGasPrice e w of
          Inl err \<Rightarrow> Some (Some (Fatal ''Failed to get gas price''), w, txHash0)
        | Inr gasPrice \<Rightarrow>
      (let tx = \<lparr>tx_nonce = nonce, tx_to = addressTo, tx_value = value, tx_gas = uint64 gas,
                 tx_gasPrice = gasPrice, tx_data = calldata\<rparr>;
           txToSave = \<lparr>From = WALLET_ADDRESS e, To = addressTo, Value = value, Gas = gas,
                       GasPrice = gasPrice, Nonce = nonce, ChainID = chainID e,
                       Data = mp_Calldata methodParams\<rparr>
       in case SignTx e tx of
          Inl err \<Rightarrow> Some (Some (Fatal ''Failed to sign the transaction''), w, txHash0)
        | Inr signedHash \<Rightarrow>
      (case SendTransaction e w tx signedHash of
          Some err \<Rightarrow> Some (Some (Fatal ''Failed to send transaction''), w, txHash0)
        | None \<Rightarrow>
      (let txHash = signedHash;
           w1 = println (TransactionSent txHash) (w\<lparr>broadcast := broadcast w @ [(tx, signedHash)]\<rparr>)
       in case SaveTransactionDetails (time_Format e (clock w1)) (files e) (logfile w1)
                 txToSave txHash (- 1) of
          (Some err, file) \<Rightarrow>
             Some (Some (Fatal ''Failed to save transaction details''), w1\<lparr>logfile := file\<rparr>, txHash)
        | (None, file) \<Rightarrow>
      (let w2 = w1\<lparr>logfile := file\<rparr>
       in case waitForTransactionReceipt (TransactionReceipt e txHash) (rpc_latency e txHash)
                 (120 * second) (15 * second) (clock w2) of
          None \<Rightarrow> None
        | Some (Inl err, t) \<Rightarrow>
             Some (Some (Fatal ''Transaction was not mined within the timeout period''),
                   w2\<lparr>clock := t\<rparr>, txHash)
        | Some (Inr receipt, t) \<Rightarrow>
             if Status receipt = 0
             then Some (Some (Fatal ''Transaction failed''), w2\<lparr>clock := t\<rparr>, txHash)
             else Some (None, println (Mined txHash (BlockNumber receipt)) (w2\<lparr>clock := t\<rparr>),
                        txHash))))))))"

text \<open>The loop \<open>for number, step := range steps\<close> of \<open>CreateVaultExample\<close>.\<close>

fun create_steps ::
  "env \<Rightarrow> int \<Rightarrow> nat \<Rightarrow> Step list \<Rightarrow> world \<Rightarrow> string \<Rightarrow> (go_error option \<times> world \<times> string) option" where
  "create_steps e stepNumber number [] w txHash = Some (None, w, txHash)"
| "create_steps e stepNumber number (step # steps) w txHash =
     (case AsPreparedTx (step_Data step) of
        Inl err \<Rightarrow> Some (Some (Fatal ''Failed to convert step to prepared tx''), w, txHash)
      | Inr data \<Rightarrow>
         (let w1 = println (StepLabel (number + 1) (label_en data)) w in
          if stepNumber - 1 = int number then
            (case create_process e data w1 txHash of
               None \<Rightarrow> None
             | Some (Some err, w2, txHash2) \<Rightarrow> Some (Some err, w2, txHash2)
             | Some (None, w2, txHash2) \<Rightarrow>
                 create_steps e stepNumber (Suc number) steps w2 txHash2)
          else create_steps e stepNumber (Suc number) steps w1 txHash))"

text \<open>
  The block \<open>if numberOf == stepNumber\<close> of \<open>CreateVaultExample\<close>: fetch the logs of
  the last transaction, extract the vault id, patch the log file. A panic inside
  \<open>getVaultId\<close> ends the program as a panic; an error it returns is fatal.
\<close>

definition create_finish :: "env \<Rightarrow> string \<Rightarrow> world \<Rightarrow> go_error option \<times> world" where
  "create_finish e txHash w =
     (case getLogs e w txHash of
        Inl err \<Rightarrow> (Some (Fatal ''Failed to get logs''), w)
      | Inr logs \<Rightarrow>
         (case getVaultId logs of
            Inl (Panic msg) \<Rightarrow> (Some (Panic msg), w)
          | Inl err \<Rightarrow> (Some (Fatal ''Failed to vault id''), w)
          | Inr vaultId \<Rightarrow>
             (let w1 = println (VaultCreated txHash vaultId) w in
              case PatchLastVaultId (files e) (logfile w1) vaultId of
                (Some err, file) \<Rightarrow> (Some err, w1\<lparr>logfile := file\<rparr>)
              | (None, file) \<Rightarrow> (None, println DetailsUpdated (w1\<lparr>logfile := file\<rparr>)))))"

text \<open>One iteration of the outer loop of \<open>CreateVaultExample\<close>.\<close>

definition create_iteration :: "env \<Rightarrow> world \<Rightarrow> (go_error option \<times> world) option" where
  "create_iteration e w =
     (case getVaultTxSteps e w of
        Inl err \<Rightarrow> Some (Some (Fatal ''Failed to get vault creartion steps''), w\<lparr>polls := Suc (polls w)\<rparr>)
      | Inr vaultSteps \<Rightarrow>
         (let numberOf = NumberOfSteps vaultSteps;
              stepNumber = StepNumber vaultSteps;
              steps = Steps vaultSteps
          in case create_steps e stepNumber 0 steps (w\<lparr>polls := Suc (polls w)\<rparr>) [] of
               None \<Rightarrow> None
             | Some (Some err, w1, txHash) \<Rightarrow> Some (Some err, w1)
             | Some (None, w1, txHash) \<Rightarrow>
                 if numberOf = stepNumber then Some (create_finish e txHash w1)
                 else Some (None, w1)))"

text \<open>
  The outer loop \<open>for s := 0; s <= (numOfSteps - stepNumber); s++\<close> of
  \<open>CreateVaultExample\<close>. The body declares new variables with \<open>:=\<close>, so the bounds
  \<open>numOfSteps\<close> and \<open>stepNumber\<close> of the loop stay those of the first plan.
\<close>

function create_loop :: "env \<Rightarrow> int \<Rightarrow> int \<Rightarrow> int \<Rightarrow> world \<Rightarrow> (go_error option \<times> world) option" where
  "create_loop e numOfSteps stepNumber s w =
     (if s \<le> numOfSteps - stepNumber then
        (case create_iteration e w of
           None \<Rightarrow> None
         | Some (Some err, w1) \<Rightarrow> Some (Some err, w1)
         | Some (None, w1) \<Rightarrow> create_loop e numOfSteps stepNumber (s + 1) w1)
      else Some (None, w))"
  by pat_completeness auto

termination
  by (relation "measure (\<lambda>(e, numOfSteps, stepNumber, s, w). nat (numOfSteps - stepNumber + 1 - s))")
    auto

declare create_loop.simps [simp del]

definition CreateVaultExample :: "env \<Rightarrow> world \<Rightarrow> (go_error option \<times> world) option" where
  "CreateVaultExample e w =
     (case getVaultTxSteps e w of
        Inl err \<Rightarrow> Some (Some (Fatal ''Failed to get vault creartion steps''), w\<lparr>polls := Suc (polls w)\<rparr>)
      | Inr vaultSteps \<Rightarrow>
         (let numOfSteps = NumberOfSteps vaultSteps;
              stepNumber = StepNumber vaultSteps;
              steps = Steps vaultSteps;
              w1 = w\<lparr>polls := Suc (polls w)\<rparr>
          in if length steps > 0 then create_loop e numOfSteps stepNumber 0 w1
             else Some (None, println NoStepsFound w1)))"

text \<open>
  The body of \<open>if stepNumber-1 == i\<close> in \<open>VaultDebtRepayExample\<close>. The amount is a
  \<open>big.Int\<close>, the gas price is raised by 10%, the calldata is decoded from hex, the
  entry is logged with the vault id of the example, and a receipt that does not come
  in time is reported but is not fatal (\<open>continue\<close>).
\<close>

definition repay_process ::
  "env \<Rightarrow> PreparedTx \<Rightarrow> world \<Rightarrow> string \<Rightarrow> (go_error option \<times> world \<times> string) option" where
  "repay_process e data w0 txHash0 =
    (let w = println Processing w0;
         methodParams = MethodParameters data;
         addressTo = mp_To methodParams;
         calldata = mp_Calldata methodParams;
         valueStr = mp_Value methodParams
     in case SetString10 valueStr of
          None \<Rightarrow> Some (Some (Fatal ''failed to convert value to bigint''), w, txHash0)
        | Some value \<Rightarrow>
      (case PendingNonceAt e w of
          Inl err \<Rightarrow> Some (Some (Fatal ''Failed to get nonce''), w, txHash0)
        | Inr nonce \<Rightarrow>
      (let gas = GasUseEstimate data in
       case SuggestGasPrice e w of
          Inl err \<Rightarrow> Some (Some (Fatal ''Failed to get gas price''), w, txHash0)
        | Inr suggested \<Rightarrow>
      (let gasPrice = suggested * 110 div 100 in
       case hexutil_Decode e calldata of
          Inl err \<Rightarrow> Some (Some (Fatal ''Failed to decode calldata''), w, txHash0)
        | Inr calldataBytes \<Rightarrow>
      (let tx = \<lparr>tx_nonce = nonce, tx_to = addressTo, tx_value = value, tx_gas = uint64 gas,
                 tx_gasPrice = gasPrice, tx_data = calldataBytes\<rparr>;
           txToSave = \<lparr>From = WALLET_ADDRESS e, To = addressTo, Value = value, Gas = gas,
                       GasPrice = gasPrice, Nonce = nonce, ChainID = chainID e,
                       Data = mp_Calldata methodParams\<rparr>
       in case SignTx e tx of
          Inl err \<Rightarrow> Some (Some (Fatal ''Failed to sign the transaction''), w, txHash0)
        | Inr signedHash \<Rightarrow>
      (case SendTransaction e w tx signedHash of
          Some err \<Rightarrow> Some (Some (Fatal ''Failed to send transaction''), w, txHash0)
        | None \<Rightarrow>
      (let txHash = signedHash;
           w1 = w\<lparr>broadcast := broadcast w @ [(tx, signedHash)]\<rparr>
       in case SaveTransactionDetails (time_Format e (clock w1)) (files e) (logfile w1)
                 txToSave txHash (VAULT_ID e) of
          (Some err, file) \<Rightarrow>
             Some (Some (Fatal ''Failed to save transaction details''), w1\<lparr>logfile := file\<rparr>, txHash)
        | (None, file) \<Rightarrow>
      (let w2 = w1\<lparr>logfile := file\<rparr>
       in case waitForTransactionReceipt (TransactionReceipt e txHash) (rpc_latency e txHash)
                 (60 * second) (5 * second) (clock w2) of
          None \<Rightarrow> None
        | Some (Inl err, t) \<Rightarrow> Some (None, println (NotMined txHash) (w2\<lparr>clock := t\<rparr>), txHash)
        | Some (Inr receipt, t) \<Rightarrow>
             Some (None, println (Mined txHash (BlockNumber receipt)) (w2\<lparr>clock := t\<rparr>),
                   txHash)))))))))"

text \<open>The loop \<open>for i, step := range steps\<close> of \<open>VaultDebtRepayExample\<close>.\<close>

fun repay_steps ::
  "env \<Rightarrow> int \<Rightarrow> nat \<Rightarrow> Step list \<Rightarrow> world \<Rightarrow> string \<Rightarrow> (go_error option \<times> world \<times> string) option" where
  "repay_steps e stepNumber i [] w txHash = Some (None, w, txHash)"
| "repay_steps e stepNumber i (step # steps) w txHash =
     (case AsPreparedTx (step_Data step) of
        Inl err \<Rightarrow> Some (Some (Fatal ''Failed to convert step to prepared tx''), w, txHash)
      | Inr data \<Rightarrow>
         (let w1 = println (StepLabel (i + 1) (label_en data)) w in
          if stepNumber - 1 = int i then
            (case repay_process e data w1 txHash of
               None \<Rightarrow> None
             | Some (Some err, w2, txHash2) \<Rightarrow> Some (Some err, w2, txHash2)
             | Some (None, w2, txHash2) \<Rightarrow> repay_steps e stepNumber (Suc i) steps w2 txHash2)
          else repay_steps e stepNumber (Suc i) steps w1 txHash))"

text \<open>
  The outer loop \<open>for s := 0; s <= (numOfSteps - stepNumber); s++\<close> of
  \<open>VaultDebtRepayExample\<close>. Here the body assigns with \<open>=\<close> to the variables of the
  enclosing function, so every plan replaces the bounds the loop condition reads.
\<close>

partial_function (option) repay_loop ::
  "env \<Rightarrow> int \<Rightarrow> int \<Rightarrow> int \<Rightarrow> world \<Rightarrow> (go_error option \<times> world) option" where
  "repay_loop e numOfSteps stepNumber s w =
     (if s \<le> numOfSteps - stepNumber then
        (case getVaultTxSteps e w of
           Inl err \<Rightarrow>
             Some (Some (Fatal ''Failed to get vault repayment steps''), w\<lparr>polls := Suc (polls w)\<rparr>)
         | Inr vaultSteps \<Rightarrow>
            (case repay_steps e (StepNumber vaultSteps) 0 (Steps vaultSteps)
                    (w\<lparr>polls := Suc (polls w)\<rparr>) [] of
               None \<Rightarrow> None
             | Some (Some err, w1, txHash) \<Rightarrow> Some (Some err, w1)
             | Some (None, w1, txHash) \<Rightarrow>
                 repay_loop e (NumberOfSteps vaultSteps) (StepNumber vaultSteps) (s + 1) w1))
      else Some (None, w))"

definition VaultDebtRepayExample :: "env \<Rightarrow> world \<Rightarrow> (go_error option \<times> world) option" where
  "VaultDebtRepayExample e w =
     (case getVaultTxSteps e w of
        Inl err \<Rightarrow>
          Some (Some (Fatal ''Failed to get vault repayment steps''), w\<lparr>polls := Suc (polls w)\<rparr>)
      | Inr vaultSteps \<Rightarrow>
         (let numOfSteps = NumberOfSteps vaultSteps;
              stepNumber = StepNumber vaultSteps;
              steps = Steps vaultSteps;
              w1 = w\<lparr>polls := Suc (polls w)\<rparr>
          in if length steps > 0 then repay_loop e numOfSteps stepNumber 0 w1
             else Some (Some (Fatal ''No steps found in vault repayment transaction''), w1)))"

declare repay_loop.simps [code]

text \<open>
  The notions the properties of the executor are stated with: a transaction is built from a step
  when its recipient and calldata are those of the step, its amount is the decimal
  integer the step gives, and its gas limit is the gas estimate of the step read as an
  unsigned 64-bit number (the number in \<open>[0, 2^64)\<close> that differs from it by a
  multiple of \<open>2^64\<close>);
  \<open>step_labels\<close> are the step labels among the printed lines; \<open>plan_labels\<close> are
  the labels of a plan, numbered from 1.
\<close>

definition built_from_create :: "PreparedTx \<Rightarrow> Transaction \<Rightarrow> bool" where
  "built_from_create data tx \<longleftrightarrow>
     tx_to tx = mp_To (MethodParameters data) \<and>
     tx_data tx = mp_Calldata (MethodParameters data) \<and>
     is_decimal_integer (mp_Value (MethodParameters data)) \<and>
     fits_int64 (decimal_integer_value (mp_Value (MethodParameters data))) \<and>
     tx_value tx = decimal_integer_value (mp_Value (MethodParameters data)) \<and>
     0 \<le> tx_gas tx \<and> tx_gas tx < 2 ^ 64 \<and>
     (\<exists>k. tx_gas tx = GasUseEstimate data + k * 2 ^ 64)"

definition built_from_repay :: "env \<Rightarrow> PreparedTx \<Rightarrow> Transaction \<Rightarrow> bool" where
  "built_from_repay e data tx \<longleftrightarrow>
     tx_to tx = mp_To (MethodParameters data) \<and>
     hexutil_Decode e (mp_Calldata (MethodParameters data)) = Inr (tx_data tx) \<and>
     is_decimal_integer (mp_Value (MethodParameters data)) \<and>
     tx_value tx = decimal_integer_value (mp_Value (MethodParameters data)) \<and>
     0 \<le> tx_gas tx \<and> tx_gas tx < 2 ^ 64 \<and>
     (\<exists>k. tx_gas tx = GasUseEstimate data + k * 2 ^ 64)"





fun step_labels :: "console_line list \<Rightarrow> (nat \<times> string) list" where
  "step_labels [] = []"
| "step_labels (StepLabel n l # ls) = (n, l) # step_labels ls"
| "step_labels (_ # ls) = step_labels ls"


text \<open>The shape the two loops over the steps share, with the body for the current step as a parameter.\<close>

fun steps_loop ::
  "(PreparedTx \<Rightarrow> world \<Rightarrow> string \<Rightarrow> (go_error option \<times> world \<times> string) option) \<Rightarrow>
   int \<Rightarrow> nat \<Rightarrow> Step list \<Rightarrow> world \<Rightarrow> string \<Rightarrow> (go_error option \<times> world \<times> string) option" where
  "steps_loop process stepNumber i [] w txHash = Some (None, w, txHash)"
| "steps_loop process stepNumber i (step # steps) w txHash =
     (case AsPreparedTx (step_Data step) of
        Inl err \<Rightarrow> Some (Some (Fatal ''Failed to convert step to prepared tx''), w, txHash)
      | Inr data \<Rightarrow>
         (let w1 = println (StepLabel (i + 1) (label_en data)) w in
          if stepNumber - 1 = int i then
            (case process data w1 txHash of
               None \<Rightarrow> None
             | Some (Some err, w2, txHash2) \<Rightarrow> Some (Some err, w2, txHash2)
             | Some (None, w2, txHash2) \<Rightarrow> steps_loop process stepNumber (Suc i) steps w2 txHash2)
          else steps_loop process stepNumber (Suc i) steps w1 txHash))"

definition process_effect ::
  "(PreparedTx \<Rightarrow> world \<Rightarrow> string \<Rightarrow> (go_error option \<times> world \<times> string) option) \<Rightarrow>
   (PreparedTx \<Rightarrow> Transaction \<Rightarrow> bool) \<Rightarrow> bool" where
  "process_effect process built \<longleftrightarrow>
     (\<forall>data w h r w' h'. process data w h = Some (r, w', h') \<longrightarrow>
        polls w' = polls w \<and> step_labels (console w') = step_labels (console w) \<and>
        ((r \<noteq> None \<and> broadcast w' = broadcast w) \<or>
         (\<exists>tx. broadcast w' = broadcast w @ [(tx, h')] \<and> built data tx)))"

section \<open>Scenarios\<close>

text \<open>
  Concrete collaborators on which the examples are run below. A chain on which a
  transaction is never mined, is mined when the third query is made, or is mined
  only by the time of the ninth query, with queries that take two seconds each. A remote API whose plan has three steps and whose
  current step is the one after the transactions broadcast so far, with a chain and a
  file system on which every call succeeds at once.
\<close>

definition never_mined :: "nat \<Rightarrow> poll_result" where
  "never_mined k = ReceiptNotFound"

definition two_second_queries :: "nat \<Rightarrow> int" where
  "two_second_queries k = 2 * second"

definition mined_at_third_query :: "nat \<Rightarrow> poll_result" where
  "mined_at_third_query k =
     (if k = 2 then ReceiptFound \<lparr>Status = 1, BlockNumber = 100\<rparr> else ReceiptNotFound)"

definition mined_late :: "nat \<Rightarrow> poll_result" where
  "mined_late k =
     (if 8 \<le> k then ReceiptFound \<lparr>Status = 1, BlockNumber = 100\<rparr> else ReceiptNotFound)"

definition plan_step :: "string \<Rightarrow> string \<Rightarrow> Step" where
  "plan_step label calldata =
     \<lparr>step_Data = PreparedTxData
        \<lparr>Label = [''en-US'' \<mapsto> label],
         MethodParameters = \<lparr>mp_To = ''0xC0'', mp_Calldata = calldata, mp_Value = ''0''\<rparr>,
         GasUseEstimate = 100000\<rparr>\<rparr>"

definition three_steps :: "Step list" where
  "three_steps = [plan_step ''Approve'' ''0x01'', plan_step ''Join'' ''0x02'',
                  plan_step ''Repay'' ''0x03'']"

definition advancing_plan :: "world \<Rightarrow> go_error + ChainActivity" where
  "advancing_plan w =
     Inr \<lparr>NumberOfSteps = 3, StepNumber = 1 + int (length (broadcast w)), Steps = three_steps\<rparr>"

definition cooperative :: env where
  "cooperative =
     \<lparr>getVaultTxSteps = advancing_plan,
      PendingNonceAt = (\<lambda>w. Inr (length (broadcast w))),
      SuggestGasPrice = (\<lambda>w. Inr 100),
      SignTx = (\<lambda>tx. Inr (tx_data tx)),
      SendTransaction = (\<lambda>w tx h. None),
      TransactionReceipt = (\<lambda>h k. ReceiptFound \<lparr>Status = 1, BlockNumber = 100\<rparr>),
      rpc_latency = (\<lambda>h k. 0),
      getLogs = (\<lambda>w h. Inr []),
      hexutil_Decode = (\<lambda>s. Inr s),
      time_Format = (\<lambda>t. ''2024-01-01T00:00:00Z''),
      files = \<lparr>can_create = True, can_write = True\<rparr>,
      chainID = 1,
      WALLET_ADDRESS = ''0xA'',
      VAULT_ID = 0\<rparr>"

definition fresh_world :: world where
  "fresh_world = \<lparr>clock = 0, broadcast = [], logfile = Absent, console = [], polls = 0\<rparr>"

section \<open>Properties of the vault id extraction\<close>

lemma atoi_loop_acc:
  "foldl (\<lambda>n ch. n * 10 + digit_of ch) a ds =
     a * 10 ^ length ds + (\<Sum>i < length ds. digit_of (ds ! i) * 10 ^ (length ds - 1 - i))"
proof (induction ds arbitrary: a)
  case Nil
  then show ?case by simp
next
  case (Cons d ds)
  have "(\<Sum>i < Suc (length ds). digit_of ((d # ds) ! i) * 10 ^ (Suc (length ds) - 1 - i)) =
        digit_of d * 10 ^ length ds + (\<Sum>i < length ds. digit_of (ds ! i) * 10 ^ (length ds - 1 - i))"
    by (simp add: sum.lessThan_Suc_shift del: sum.lessThan_Suc)
  with Cons.IH [of "a * 10 + digit_of d"] show ?case
    by (simp add: algebra_simps)
qed

lemma atoi_loop_positional: "atoi_loop ds = positional_value ds"
  by (simp add: atoi_loop_def positional_value_def atoi_loop_acc)

lemma Atoi_char:
  "Atoi s = (if is_decimal_integer s \<and> fits_int64 (decimal_integer_value s)
             then Some (decimal_integer_value s) else None)"
proof (cases s)
  case Nil
  then show ?thesis
    by (simp add: Atoi_def is_decimal_integer_def unsigned_part_def)
next
  case (Cons c cs)
  then show ?thesis
    by (auto simp: Atoi_def is_decimal_integer_def unsigned_part_def decimal_integer_value_def
        fits_int64_def atoi_loop_positional list_all_iff Let_def)
qed

lemma getVaultId_none:
  "\<forall>l \<in> set logs. \<not> is_cdpmanager l \<Longrightarrow> getVaultId logs = Inr 0"
  by (induction logs) (auto simp: is_cdpmanager_def)

lemma getVaultId_first:
  "find is_cdpmanager logs = Some l \<Longrightarrow> getVaultId logs = getVaultId [l]"
  by (induction logs) (auto simp: is_cdpmanager_def split: if_splits)

lemma create_finish_no_cdpmanager:
  assumes "getLogs e w txHash = Inr logs" and "\<forall>l \<in> set logs. Contract l \<noteq> ''Cdpmanager''"
    and "logfile w = Holds transactions" and "transactions \<noteq> []"
    and "can_create (files e)" and "can_write (files e)"
  shows "\<exists>w' updated. create_finish e txHash w = (None, w') \<and> logfile w' = Holds updated \<and>
           butlast updated = butlast transactions \<and>
           last updated = (last transactions)\<lparr>VaultID := 0\<rparr>"
proof -
  have v: "getVaultId logs = Inr 0"
    using assms(2) by (intro getVaultId_none) (simp add: is_cdpmanager_def)
  from assms(4) obtain ys y where xs: "transactions = ys @ [y]"
    by (cases transactions rule: rev_cases) auto
  show ?thesis
    using assms(1,3,5,6) v
    by (simp add: create_finish_def PatchLastVaultId_def println_def xs)
qed

text \<open>
  C10 (as amended). When no entry of the list has Contract \<open>Cdpmanager\<close>, \<open>getVaultId\<close>
  returns vault id 0 and no error, and the executor then patches the vault id of the
  last log entry to 0 (neither an error nor the value -1 of a vault id not yet
  known). Otherwise the first such entry decides: if it has a decoded payload, the
  result is an error exactly when the payload has no \<open>Cdp\<close> key or its value is not
  a decimal integer (optional sign, then digits) that fits a 64-bit \<open>int\<close>, and
  otherwise the result is that integer.
\<close>

theorem getVaultId_result:
  "((\<forall>l \<in> set logs. Contract l \<noteq> ''Cdpmanager'') \<longrightarrow> getVaultId logs = Inr 0) \<and>
   (\<forall>l payload. find is_cdpmanager logs = Some l \<and> Decoded l = Some payload \<longrightarrow>
      (isl (getVaultId logs) \<longleftrightarrow>
         (payload ''Cdp'' = None \<or>
          (\<exists>s. payload ''Cdp'' = Some s \<and>
               \<not> (is_decimal_integer s \<and> fits_int64 (decimal_integer_value s))))) \<and>
      (\<forall>s. payload ''Cdp'' = Some s \<and> is_decimal_integer s \<and> fits_int64 (decimal_integer_value s)
          \<longrightarrow> getVaultId logs = Inr (decimal_integer_value s))) \<and>
   (\<forall>e w txHash transactions.
      getLogs e w txHash = Inr logs \<and> (\<forall>l \<in> set logs. Contract l \<noteq> ''Cdpmanager'') \<and>
      logfile w = Holds transactions \<and> transactions \<noteq> [] \<and>
      can_create (files e) \<and> can_write (files e) \<longrightarrow>
      (\<exists>w' updated. create_finish e txHash w = (None, w') \<and> logfile w' = Holds updated \<and>
         butlast updated = butlast transactions \<and>
         last updated = (last transactions)\<lparr>VaultID := 0\<rparr>))"
proof (intro conjI allI impI)
  assume "\<forall>l \<in> set logs. Contract l \<noteq> ''Cdpmanager''"
  then show "getVaultId logs = Inr 0"
    by (intro getVaultId_none) (simp add: is_cdpmanager_def)
next
  fix l payload
  assume h: "find is_cdpmanager logs = Some l \<and> Decoded l = Some payload"
  then have cdp: "Contract l = ''Cdpmanager''"
    by (auto simp: find_Some_iff is_cdpmanager_def)
  from h have eq: "getVaultId logs = getVaultId [l]"
    by (simp add: getVaultId_first)
  show "isl (getVaultId logs) \<longleftrightarrow>
         (payload ''Cdp'' = None \<or>
          (\<exists>s. payload ''Cdp'' = Some s \<and>
               \<not> (is_decimal_integer s \<and> fits_int64 (decimal_integer_value s))))"
    using h cdp by (auto simp: eq Atoi_char split: option.splits)
  fix s
  assume "payload ''Cdp'' = Some s \<and> is_decimal_integer s \<and> fits_int64 (decimal_integer_value s)"
  then show "getVaultId logs = Inr (decimal_integer_value s)"
    using h cdp by (simp add: eq Atoi_char)
next
  fix e :: env and w :: world and txHash transactions
  assume "getLogs e w txHash = Inr logs \<and> (\<forall>l \<in> set logs. Contract l \<noteq> ''Cdpmanager'') \<and>
      logfile w = Holds transactions \<and> transactions \<noteq> [] \<and>
      can_create (files e) \<and> can_write (files e)"
  then show "\<exists>w' updated. create_finish e txHash w = (None, w') \<and> logfile w' = Holds updated \<and>
         butlast updated = butlast transactions \<and>
         last updated = (last transactions)\<lparr>VaultID := 0\<rparr>"
    by (intro create_finish_no_cdpmanager) blast+
qed

theorem getVaultId_result_witness:
  "getVaultId [\<lparr>Contract = ''Jug'', Decoded = None\<rparr>] = Inr 0 \<and>
   find is_cdpmanager [\<lparr>Contract = ''Jug'', Decoded = None\<rparr>,
                       \<lparr>Contract = ''Cdpmanager'', Decoded = Some [''Cdp'' \<mapsto> ''42'']\<rparr>]
     = Some \<lparr>Contract = ''Cdpmanager'', Decoded = Some [''Cdp'' \<mapsto> ''42'']\<rparr> \<and>
   is_decimal_integer ''42'' \<and> fits_int64 (decimal_integer_value ''42'') \<and>
   getVaultId [\<lparr>Contract = ''Jug'', Decoded = None\<rparr>,
               \<lparr>Contract = ''Cdpmanager'', Decoded = Some [''Cdp'' \<mapsto> ''42'']\<rparr>]
     = Inr (decimal_integer_value ''42'') \<and>
   decimal_integer_value ''42'' = 42 \<and>
   can_create (files cooperative) \<and> can_write (files cooperative) \<and>
   (\<exists>w' updated.
      create_finish cooperative ''0x03''
        (fresh_world\<lparr>logfile := Holds [\<lparr>Timestamp = ''2024-01-01T00:00:00Z'',
           Tx = \<lparr>From = ''0xA'', To = ''0xC0'', Value = 0, Gas = 100000, GasPrice = 100,
                  Nonce = 2, ChainID = 1, Data = ''0x03''\<rparr>,
           TxHash = ''0x03'', VaultID = - 1\<rparr>]\<rparr>) = (None, w') \<and>
      logfile w' = Holds updated \<and> VaultID (last updated) = 0)"
proof -
  let ?entry = "\<lparr>Timestamp = ''2024-01-01T00:00:00Z'',
           Tx = \<lparr>From = ''0xA'', To = ''0xC0'', Value = 0, Gas = 100000, GasPrice = 100,
                  Nonce = 2, ChainID = 1, Data = ''0x03''\<rparr>,
           TxHash = ''0x03'', VaultID = - 1\<rparr>"
  let ?w = "fresh_world\<lparr>logfile := Holds [?entry]\<rparr>"
  have g: "getLogs cooperative ?w ''0x03'' = Inr []"
    and fs: "can_create (files cooperative)" "can_write (files cooperative)"
    by (simp_all add: cooperative_def)
  have h: "getLogs cooperative ?w ''0x03'' = Inr [] \<and> (\<forall>l \<in> set []. Contract l \<noteq> ''Cdpmanager'') \<and>
      logfile ?w = Holds [?entry] \<and> [?entry] \<noteq> [] \<and>
      can_create (files cooperative) \<and> can_write (files cooperative)"
    using g fs by simp
  note third = getVaultId_result [of "[]", THEN conjunct2, THEN conjunct2, rule_format, OF h]
  then obtain w' updated where u: "create_finish cooperative ''0x03'' ?w = (None, w')"
    "logfile w' = Holds updated" "last updated = (last [?entry])\<lparr>VaultID := 0\<rparr>"
    by blast
  from u(3) have "VaultID (last updated) = 0"
    by simp
  with u(1,2) have c: "\<exists>w' updated. create_finish cooperative ''0x03'' ?w = (None, w') \<and>
      logfile w' = Holds updated \<and> VaultID (last updated) = 0"
    by blast
  let ?jug = "\<lparr>Contract = ''Jug'', Decoded = None\<rparr>"
  let ?cdp = "\<lparr>Contract = ''Cdpmanager'', Decoded = Some [''Cdp'' \<mapsto> ''42'']\<rparr>"
  have f: "find is_cdpmanager [?jug, ?cdp] = Some ?cdp"
    by (simp add: is_cdpmanager_def)
  have d: "is_decimal_integer ''42''"
    by (simp add: is_decimal_integer_def unsigned_part_def is_digit_def)
  have v: "decimal_integer_value ''42'' = 42"
    by (simp add: decimal_integer_value_def unsigned_part_def positional_value_def digit_of_def
        lessThan_Suc numeral_2_eq_2)
  have r: "fits_int64 (decimal_integer_value ''42'')"
    by (simp add: v fits_int64_def)
  have "\<forall>l \<in> set [?jug]. Contract l \<noteq> ''Cdpmanager''"
    by simp
  with getVaultId_result [of "[?jug]", THEN conjunct1]
  have a: "getVaultId [?jug] = Inr 0"
    by (rule mp)
  have p: "Decoded ?cdp = Some [''Cdp'' \<mapsto> ''42'']" "[''Cdp'' \<mapsto> ''42''] ''Cdp'' = Some ''42''"
    by simp_all
  from f p(1) have fp: "find is_cdpmanager [?jug, ?cdp] = Some ?cdp \<and>
      Decoded ?cdp = Some [''Cdp'' \<mapsto> ''42'']"
    by (rule conjI)
  from p(2) d r have sp: "[''Cdp'' \<mapsto> ''42''] ''Cdp'' = Some ''42'' \<and> is_decimal_integer ''42'' \<and>
      fits_int64 (decimal_integer_value ''42'')"
    by (intro conjI)
  note second = getVaultId_result [of "[?jug, ?cdp]", THEN conjunct2, THEN conjunct1,
      rule_format, OF fp, THEN conjunct2, rule_format, OF sp]
  then have b: "getVaultId [?jug, ?cdp] = Inr (decimal_integer_value ''42'')" .
  from a f d r b v fs c show ?thesis
    by (intro conjI)
qed

text \<open>
  C10 (counterexample). The payload has the \<open>Cdp\<close> key and its value is a decimal
  integer, yet \<open>getVaultId\<close> returns an error: the value is 2^63, one more than the
  largest \<open>int\<close>.
\<close>

theorem getVaultId_out_of_range_counterexample:
  "[''Cdp'' \<mapsto> ''9223372036854775808''] ''Cdp'' = Some ''9223372036854775808'' \<and>
   is_decimal_integer ''9223372036854775808'' \<and>
   getVaultId [\<lparr>Contract = ''Cdpmanager'',
                Decoded = Some [''Cdp'' \<mapsto> ''9223372036854775808'']\<rparr>]
     = Inl (Errorf ''failed to convert vault id to int'')"
  by (simp add: is_decimal_integer_def unsigned_part_def is_digit_def Atoi_def atoi_loop_def
      digit_of_def)

section \<open>Properties of the response classifier\<close>

text \<open>
  C5. For a response with status at least 300 whose body could be read, both
  classifiers go through the shapes in a fixed order. A body of the UserError shape
  with at least one localized message gives a UserError that carries the decoded
  mapping unchanged; otherwise a body of the generic shape with a non-empty \<open>msg\<close>
  gives an APIError that carries that message and the reasons; otherwise the result
  is an UnhandledError whose details are the raw body. The caller's success value is
  not touched.
\<close>

theorem classifier_order:
  assumes "resp_Body r = Inr body" and "300 \<le> resp_StatusCode r"
  shows
   "(\<forall>u. user_error_shape decU body u \<longrightarrow>
        HandleAPIResponse decT decU decE (Some r) v =
          (Some \<lparr>StatusCode = resp_StatusCode r, Message = ''User error'',
                 Details = DetailsUserError u, RequestID = resp_RequestID r,
                 Path = resp_Path r, Method = resp_Method r, ErrorContext = None\<rparr>, v) \<and>
        ex_HandleAPIResponse decT decU decE (Some r) v =
          (Some (Classified \<lparr>ex_StatusCode = resp_StatusCode r, ex_Message = ''User error'',
                             ex_Details = DetailsUserError u\<rparr>), v)) \<and>
    ((\<forall>u. \<not> user_error_shape decU body u) \<longrightarrow>
       (\<forall>g. generic_error_shape decE body g \<longrightarrow>
        HandleAPIResponse decT decU decE (Some r) v =
          (Some \<lparr>StatusCode = resp_StatusCode r, Message = Msg g,
                 Details = DetailsError g, RequestID = resp_RequestID r,
                 Path = resp_Path r, Method = resp_Method r, ErrorContext = None\<rparr>, v) \<and>
        ex_HandleAPIResponse decT decU decE (Some r) v =
          (Some (Classified \<lparr>ex_StatusCode = resp_StatusCode r, ex_Message = ''API error'',
                             ex_Details = DetailsError g\<rparr>), v))) \<and>
    ((\<forall>u. \<not> user_error_shape decU body u) \<and> (\<forall>g. \<not> generic_error_shape decE body g) \<longrightarrow>
        HandleAPIResponse decT decU decE (Some r) v =
          (Some \<lparr>StatusCode = resp_StatusCode r, Message = ''Unhandled error'',
                 Details = DetailsString body, RequestID = resp_RequestID r,
                 Path = resp_Path r, Method = resp_Method r, ErrorContext = None\<rparr>, v) \<and>
        ex_HandleAPIResponse decT decU decE (Some r) v =
          (Some (Classified \<lparr>ex_StatusCode = resp_StatusCode r, ex_Message = ''Unhandled error'',
                             ex_Details = DetailsString body\<rparr>), v))"
proof -
  have st: "\<not> (200 \<le> resp_StatusCode r \<and> resp_StatusCode r < 300)"
    using assms(2) by simp
  show ?thesis
    using assms(1) st
    by (auto simp: HandleAPIResponse_def ex_HandleAPIResponse_def user_error_shape_def
        generic_error_shape_def Let_def split: sum.splits)
qed

theorem classifier_order_witness:
  "let u = \<lparr>Messages = [''en-US'' \<mapsto> \<lparr>UserMessage = ''wrong password'', Solutions = [''retry'']\<rparr>]\<rparr>;
       g = \<lparr>Msg = ''bad request'', Reasons = [''missing field'']\<rparr>;
       decU = (\<lambda>b. if b = ''user'' then Inr u else if b = ''generic'' then Inr \<lparr>Messages = Map.empty\<rparr>
                    else Inl (Errorf ''invalid character''));
       decE = (\<lambda>b. if b = ''generic'' then Inr g else if b = ''user'' then Inr \<lparr>Msg = [], Reasons = []\<rparr>
                    else Inl (Errorf ''invalid character''));
       decT = (\<lambda>b (v::nat). (None, v));
       r = (\<lambda>b. \<lparr>resp_StatusCode = 400, resp_RequestID = ''id-1'', resp_Path = ''/auth/login'',
                  resp_Method = ''POST'', resp_Body = Inr b\<rparr>)
   in (300::int) \<le> 400 \<and> user_error_shape decU ''user'' u \<and>
      HandleAPIResponse decT decU decE (Some (r ''user'')) 0 =
        (Some \<lparr>StatusCode = 400, Message = ''User error'', Details = DetailsUserError u,
               RequestID = ''id-1'', Path = ''/auth/login'', Method = ''POST'',
               ErrorContext = None\<rparr>, 0) \<and>
      (\<forall>u. \<not> user_error_shape decU ''generic'' u) \<and> generic_error_shape decE ''generic'' g \<and>
      HandleAPIResponse decT decU decE (Some (r ''generic'')) 0 =
        (Some \<lparr>StatusCode = 400, Message = ''bad request'', Details = DetailsError g,
               RequestID = ''id-1'', Path = ''/auth/login'', Method = ''POST'',
               ErrorContext = None\<rparr>, 0) \<and>
      (\<forall>u. \<not> user_error_shape decU ''<html>'' u) \<and> (\<forall>g. \<not> generic_error_shape decE ''<html>'' g) \<and>
      ex_HandleAPIResponse decT decU decE (Some (r ''<html>'')) 0 =
        (Some (Classified \<lparr>ex_StatusCode = 400, ex_Message = ''Unhandled error'',
                           ex_Details = DetailsString ''<html>''\<rparr>), 0)"
proof -
  define u where "u = \<lparr>Messages = [''en-US'' \<mapsto> \<lparr>UserMessage = ''wrong password'', Solutions = [''retry'']\<rparr>]\<rparr>"
  define g where "g = \<lparr>Msg = ''bad request'', Reasons = [''missing field'']\<rparr>"
  define decU where "decU = (\<lambda>b. if b = ''user'' then Inr u
       else if b = ''generic'' then Inr \<lparr>Messages = Map.empty\<rparr>
       else (Inl (Errorf ''invalid character'') :: go_error + UserError))"
  define decE where "decE = (\<lambda>b. if b = ''generic'' then Inr g
       else if b = ''user'' then Inr \<lparr>Msg = [], Reasons = []\<rparr>
       else (Inl (Errorf ''invalid character'') :: go_error + Error))"
  define decT where "decT = (\<lambda>(b::string) (v::nat). (None :: go_error option, v))"
  define r where "r = (\<lambda>b. \<lparr>resp_StatusCode = 400, resp_RequestID = ''id-1'',
       resp_Path = ''/auth/login'', resp_Method = ''POST'', resp_Body = Inr b\<rparr>)"
  have body: "\<And>b. resp_Body (r b) = (Inr b :: go_error + string)"
    and status: "\<And>b. 300 \<le> resp_StatusCode (r b)"
    and fields: "\<And>b. resp_StatusCode (r b) = 400" "\<And>b. resp_RequestID (r b) = ''id-1''"
      "\<And>b. resp_Path (r b) = ''/auth/login''" "\<And>b. resp_Method (r b) = ''POST''"
    by (simp_all add: r_def)
  have s1: "user_error_shape decU ''user'' u"
    by (simp add: user_error_shape_def decU_def u_def)
  have s2: "\<forall>u. \<not> user_error_shape decU ''generic'' u"
    by (auto simp: user_error_shape_def decU_def)
  have s3: "generic_error_shape decE ''generic'' g"
    by (simp add: generic_error_shape_def decE_def g_def)
  have s4: "\<forall>u. \<not> user_error_shape decU ''<html>'' u"
    by (simp add: user_error_shape_def decU_def)
  have s5: "\<forall>g. \<not> generic_error_shape decE ''<html>'' g"
    by (simp add: generic_error_shape_def decE_def)
  have a: "HandleAPIResponse decT decU decE (Some (r ''user'')) 0 =
        (Some \<lparr>StatusCode = 400, Message = ''User error'', Details = DetailsUserError u,
               RequestID = ''id-1'', Path = ''/auth/login'', Method = ''POST'',
               ErrorContext = None\<rparr>, 0)"
    using classifier_order [OF body status, of decU "''user''" decT decE 0] s1
    by (simp add: fields)
  have b: "HandleAPIResponse decT decU decE (Some (r ''generic'')) 0 =
        (Some \<lparr>StatusCode = 400, Message = ''bad request'', Details = DetailsError g,
               RequestID = ''id-1'', Path = ''/auth/login'', Method = ''POST'',
               ErrorContext = None\<rparr>, 0)"
    using classifier_order [OF body status, of decU "''generic''" decT decE 0] s2 s3
    by (simp add: fields g_def)
  have c: "ex_HandleAPIResponse decT decU decE (Some (r ''<html>'')) 0 =
        (Some (Classified \<lparr>ex_StatusCode = 400, ex_Message = ''Unhandled error'',
                           ex_Details = DetailsString ''<html>''\<rparr>), 0)"
    using classifier_order [OF body status, of decU "''<html>''" decT decE 0] s4 s5
    by (simp add: fields)
  show ?thesis
    using a b c s1 s2 s3 s4 s5
    unfolding Let_def u_def [symmetric] g_def [symmetric] decU_def [symmetric]
      decE_def [symmetric] decT_def [symmetric] r_def [symmetric]
    by simp
qed

text \<open>
  C6. For a response with a status in [200,300) whose body could be read, both
  classifiers decode the body into the caller's success value once. When decoding
  succeeds they return the decoded value and no error; when it fails they return at
  once the error \<open>failed to parse success response\<close>, which wraps the decoder's
  error, and try nothing else.
\<close>

theorem classifier_success:
  assumes "resp_Body r = Inr body" and "200 \<le> resp_StatusCode r" and "resp_StatusCode r < 300"
  shows
   "(\<forall>v'. decT body v = (None, v') \<longrightarrow>
        HandleAPIResponse decT decU decE (Some r) v = (None, v') \<and>
        ex_HandleAPIResponse decT decU decE (Some r) v = (None, v')) \<and>
    (\<forall>err v'. decT body v = (Some err, v') \<longrightarrow>
        HandleAPIResponse decT decU decE (Some r) v =
          (Some \<lparr>StatusCode = resp_StatusCode r, Message = ''failed to parse success response'',
                 Details = DetailsString (error_text err), RequestID = resp_RequestID r,
                 Path = resp_Path r, Method = resp_Method r, ErrorContext = None\<rparr>, v') \<and>
        ex_HandleAPIResponse decT decU decE (Some r) v =
          (Some (Plain (Errorf (''failed to parse success response: '' @ error_text err))), v'))"
  using assms by (simp add: HandleAPIResponse_def ex_HandleAPIResponse_def Let_def)

theorem classifier_success_witness:
  "let r = (\<lambda>b. \<lparr>resp_StatusCode = 200, resp_RequestID = ''id-2'', resp_Path = ''/auth/login'',
                  resp_Method = ''POST'', resp_Body = Inr b\<rparr>);
       decT = (\<lambda>b (v::string). if b = ''token'' then (None, ''abc'')
                               else (Some (Errorf ''unexpected end of JSON input''), v));
       decU = (\<lambda>b. Inl (Errorf ''unused''));
       decE = (\<lambda>b. Inl (Errorf ''unused''))
   in (200::int) \<le> 200 \<and> (200::int) < 300 \<and>
      decT ''token'' [] = (None, ''abc'') \<and>
      HandleAPIResponse decT decU decE (Some (r ''token'')) [] = (None, ''abc'') \<and>
      ex_HandleAPIResponse decT decU decE (Some (r ''token'')) [] = (None, ''abc'') \<and>
      decT [] [] = (Some (Errorf ''unexpected end of JSON input''), []) \<and>
      HandleAPIResponse decT decU decE (Some (r [])) [] =
        (Some \<lparr>StatusCode = 200, Message = ''failed to parse success response'',
               Details = DetailsString ''unexpected end of JSON input'', RequestID = ''id-2'',
               Path = ''/auth/login'', Method = ''POST'', ErrorContext = None\<rparr>, [])"
proof -
  define r where "r = (\<lambda>b. \<lparr>resp_StatusCode = 200, resp_RequestID = ''id-2'',
       resp_Path = ''/auth/login'', resp_Method = ''POST'', resp_Body = Inr b\<rparr>)"
  define decT where "decT = (\<lambda>b (v::string). if b = ''token'' then (None, ''abc'')
       else (Some (Errorf ''unexpected end of JSON input''), v))"
  define decU where "decU = (\<lambda>b::string. (Inl (Errorf ''unused'') :: go_error + UserError))"
  define decE where "decE = (\<lambda>b::string. (Inl (Errorf ''unused'') :: go_error + Error))"
  have body: "\<And>b. resp_Body (r b) = (Inr b :: go_error + string)"
    and lo: "\<And>b. 200 \<le> resp_StatusCode (r b)" and hi: "\<And>b. resp_StatusCode (r b) < 300"
    and fields: "\<And>b. resp_StatusCode (r b) = 200" "\<And>b. resp_RequestID (r b) = ''id-2''"
      "\<And>b. resp_Path (r b) = ''/auth/login''" "\<And>b. resp_Method (r b) = ''POST''"
    by (simp_all add: r_def)
  have d1: "decT ''token'' [] = (None, ''abc'')"
    and d2: "decT [] [] = (Some (Errorf ''unexpected end of JSON input''), [])"
    by (simp_all add: decT_def)
  have a: "HandleAPIResponse decT decU decE (Some (r ''token'')) [] = (None, ''abc'') \<and>
           ex_HandleAPIResponse decT decU decE (Some (r ''token'')) [] = (None, ''abc'')"
    using classifier_success [OF body lo hi, of decT "''token''" "[]" decU decE] d1 by simp
  have b: "HandleAPIResponse decT decU decE (Some (r [])) [] =
        (Some \<lparr>StatusCode = 200, Message = ''failed to parse success response'',
               Details = DetailsString ''unexpected end of JSON input'', RequestID = ''id-2'',
               Path = ''/auth/login'', Method = ''POST'', ErrorContext = None\<rparr>, [])"
    using classifier_success [OF body lo hi, of decT "[]" "[]" decU decE] d2
    by (simp add: fields)
  show ?thesis
    using a b d1 d2
    unfolding Let_def r_def [symmetric] decT_def [symmetric] decU_def [symmetric]
      decE_def [symmetric]
    by simp
qed

section \<open>Properties of the native amount converter\<close>

lemma dyadic_nonneg_exp: "0 \<le> e \<Longrightarrow> dyadic s m e = (if s then - 1 else 1) * of_nat (m * 2 ^ nat e)"
  by (simp add: dyadic_def power_int_def)

lemma dyadic_neg_exp:
  "e < 0 \<Longrightarrow> dyadic s m e = of_int ((if s then - 1 else 1) * int m) / of_int (2 ^ nat (- e))"
  by (simp add: dyadic_def power_int_def field_simps)

lemma dyadic_in_Ints: "dyadic s m e \<in> \<int> \<longleftrightarrow> 0 \<le> e \<or> 2 ^ nat (- e) dvd m"
proof (cases "0 \<le> e")
  case True
  then show ?thesis by (simp add: dyadic_nonneg_exp)
next
  case False
  then have "dyadic s m e \<in> \<int> \<longleftrightarrow> (2 ^ nat (- e) :: int) dvd (if s then - 1 else 1) * int m"
    by (simp only: dyadic_neg_exp of_int_div_of_int_in_Ints_iff) simp
  also have "\<dots> \<longleftrightarrow> (2 ^ nat (- e) :: int) dvd int m"
    by simp
  also have "\<dots> \<longleftrightarrow> (2 ^ nat (- e) :: nat) dvd m"
    by (metis int_dvd_int_iff of_nat_numeral of_nat_power)
  finally show ?thesis using False by simp
qed

lemma dyadic_scale: "dyadic s m e * 10 ^ p = dyadic s (m * 5 ^ p) (e + int p)"
proof -
  have "(10::rat) ^ p = of_nat (5 ^ p) * 2 powi (int p)"
    by (simp add: power_int_def flip: power_mult_distrib)
  then show ?thesis
    by (simp add: dyadic_def power_int_add)
qed

lemma dyadic_shift: "dyadic s (m * 2 ^ k) e = dyadic s m (e + int k)"
proof -
  have "(2::rat) powi (e + int k) = 2 powi e * 2 ^ k"
    by (simp add: power_int_add)
  then show ?thesis
    by (simp add: dyadic_def)
qed

lemma round_mantissa_exact: "bit_length m \<le> prec \<Longrightarrow> round_mantissa prec m e = (m, e)"
  by (simp add: round_mantissa_def)

lemma bit_length_upper: "m < 2 ^ bit_length m"
proof (induction m rule: bit_length.induct)
  case (1 n)
  show ?case
  proof (cases "n = 0")
    case True
    then show ?thesis by (subst bit_length.simps) simp
  next
    case False
    with "1.IH" have "n div 2 < 2 ^ bit_length (n div 2)" by simp
    then have "n < 2 * 2 ^ bit_length (n div 2)" by linarith
    with False show ?thesis by (subst bit_length.simps) simp
  qed
qed

lemma round_mantissa_fits:
  assumes "round_mantissa prec m e = (M, E)"
  shows "M \<le> 2 ^ prec"
proof (cases "bit_length m \<le> prec")
  case True
  have "m < 2 ^ bit_length m" by (rule bit_length_upper)
  also have "\<dots> \<le> 2 ^ prec" using True by (simp add: power_increasing)
  finally show ?thesis using assms True by (simp add: round_mantissa_exact)
next
  case False
  define s where "s = bit_length m - prec"
  from False have L: "bit_length m = prec + s" by (simp add: s_def)
  have "m < 2 ^ prec * 2 ^ s"
    using bit_length_upper [of m] by (simp add: L power_add)
  then have "m div 2 ^ s < 2 ^ prec"
    by (simp add: less_mult_imp_div_less)
  moreover have "M \<le> m div 2 ^ s + 1"
    using assms False by (auto simp: round_mantissa_def Let_def s_def split: if_splits)
  ultimately show ?thesis by linarith
qed

lemma round_mantissa_nat_error:
  assumes "round_mantissa prec m e = (M, E)" and "prec < bit_length m"
  shows "E = e + int (bit_length m - prec) \<and>
         2 * \<bar>int (M * 2 ^ (bit_length m - prec)) - int m\<bar> \<le> 2 ^ (bit_length m - prec)"
proof -
  define s where "s = bit_length m - prec"
  define q where "q = m div 2 ^ s"
  define r where "r = m mod 2 ^ s"
  have spos: "0 < s" using assms(2) by (simp add: s_def)
  have half: "2 * (2::nat) ^ (s - 1) = 2 ^ s"
    using spos by (cases s) simp_all
  have m: "m = q * 2 ^ s + r" unfolding q_def r_def by (rule div_mult_mod_eq [symmetric])
  have ME: "M = (if 2 ^ (s - 1) < r \<or> (r = 2 ^ (s - 1) \<and> odd q) then q + 1 else q)" "E = e + int s"
    using assms by (auto simp: round_mantissa_def Let_def s_def q_def r_def split: if_splits)
  have rlt: "r < 2 ^ s" by (simp add: r_def)
  show ?thesis
  proof (cases "2 ^ (s - 1) < r \<or> (r = 2 ^ (s - 1) \<and> odd q)")
    case True
    then have "M = q + 1" and "2 ^ s \<le> 2 * r" using ME half by auto
    then have "int (M * 2 ^ s) - int m = int (2 ^ s) - int r"
      by (subst m) (simp add: algebra_simps)
    moreover have "(2::int) ^ s \<le> 2 * int r"
      using \<open>2 ^ s \<le> 2 * r\<close> by (metis of_nat_le_iff of_nat_mult of_nat_numeral of_nat_power)
    moreover have "int r < 2 ^ s"
      using rlt by (metis of_nat_less_iff of_nat_numeral of_nat_power)
    ultimately show ?thesis
      using ME(2) unfolding s_def [symmetric] by simp
  next
    case False
    then have "M = q" and "2 * r \<le> 2 ^ s" using ME half by auto
    then have "int (M * 2 ^ s) - int m = - int r"
      by (subst m) simp
    moreover have "2 * int r \<le> 2 ^ s"
      using \<open>2 * r \<le> 2 ^ s\<close> by (metis of_nat_le_iff of_nat_mult of_nat_numeral of_nat_power)
    ultimately show ?thesis
      using ME(2) unfolding s_def [symmetric] by simp
  qed
qed

lemma round_mantissa_error:
  assumes "round_mantissa prec m e = (M, E)"
  shows "2 * \<bar>dyadic False M E - dyadic False m e\<bar> \<le> 2 powi E"
proof (cases "bit_length m \<le> prec")
  case True
  with assms show ?thesis by (simp add: round_mantissa_exact)
next
  case False
  define s where "s = bit_length m - prec"
  from False assms have E: "E = e + int s"
    and b: "2 * \<bar>int (M * 2 ^ s) - int m\<bar> \<le> 2 ^ s"
    using round_mantissa_nat_error [of prec m e M E] by (simp_all add: s_def)
  have p: "(2::rat) powi E = 2 ^ s * 2 powi e"
    by (simp add: E power_int_add)
  have "dyadic False M E - dyadic False m e = of_int (int (M * 2 ^ s) - int m) * 2 powi e"
    by (simp add: dyadic_def p algebra_simps)
  then have "2 * \<bar>dyadic False M E - dyadic False m e\<bar> =
             of_int (2 * \<bar>int (M * 2 ^ s) - int m\<bar>) * 2 powi e"
    by (simp add: abs_mult)
  also have "\<dots> \<le> of_int (2 ^ s) * 2 powi e"
    using b by (intro mult_right_mono) (simp_all only: of_int_le_iff, simp_all)
  finally show ?thesis by (simp add: p)
qed

lemma Float_Int_exact:
  "snd (Float_Int (BigFloat s m e)) = Exact \<longleftrightarrow> dyadic s m e \<in> \<int>"
  by (auto simp: dyadic_in_Ints mod_eq_0_iff_dvd)

lemma Float_Int_value:
  assumes "dyadic False m e \<in> \<int>"
  shows "\<exists>n. Float_Int (BigFloat False m e) = (Some (int n), Exact) \<and> of_nat n = dyadic False m e"
proof (cases "0 \<le> e")
  case True
  then show ?thesis
    by (auto simp: dyadic_nonneg_exp intro: exI [of _ "m * 2 ^ nat e"])
next
  case False
  with assms have d: "2 ^ nat (- e) dvd m"
    by (simp add: dyadic_in_Ints)
  then obtain k where k: "m = 2 ^ nat (- e) * k" ..
  have "dyadic False m e = of_nat k"
    using False by (simp add: dyadic_neg_exp k)
  moreover have "m div 2 ^ nat (- e) = k"
    by (simp add: k)
  ultimately show ?thesis
    using False d by (auto simp: mod_eq_0_iff_dvd)
qed

lemma Pow10_18: "Pow10 18 = Float64 False 3814697265625 18"
  by (simp add: Pow10_def round_mantissa_def bit_length.simps)

lemma precision_map_known:
  "precision_map syms symbol = (if symbol = ''ZAR'' \<or> symbol \<in> set syms then Some 18 else None)"
proof -
  have "\<And>f. foldl (\<lambda>precision s. precision(s \<mapsto> 18)) f syms symbol =
         (if symbol \<in> set syms then Some (18::nat) else f symbol)"
    by (induction syms) auto
  then show ?thesis
    by (simp add: precision_map_def)
qed

lemma precision_map_18: "precision_map syms symbol = Some p \<Longrightarrow> p = 18"
  by (simp add: precision_map_known split: if_splits)

lemma digit_char: "d < 10 \<Longrightarrow> of_char (char_of (48 + d)) = (48::nat) + d"
  by simp

lemma nat_String_digits: "list_all is_digit (nat_String n)"
proof (induction n rule: nat_String.induct)
  case (1 n)
  show ?case
  proof (cases "n < 10")
    case True
    then show ?thesis
      by (subst nat_String.simps) (simp add: is_digit_def)
  next
    case False
    have "n mod 10 < 10" by simp
    then have "is_digit (char_of (48 + n mod 10))"
      unfolding is_digit_def by (subst digit_char, assumption)+ simp
    with False "1.IH" show ?thesis
      by (subst nat_String.simps) simp
  qed
qed

lemma nat_String_nonempty: "nat_String n \<noteq> []"
  by (subst nat_String.simps) simp

lemma nat_String_value: "positional_value (nat_String n) = n"
proof (induction n rule: nat_String.induct)
  case (1 n)
  show ?case
  proof (cases "n < 10")
    case True
    then show ?thesis
      by (subst nat_String.simps)
        (simp add: atoi_loop_positional [symmetric] atoi_loop_def digit_of_def)
  next
    case False
    have "n mod 10 < 10" by simp
    then have d: "digit_of (char_of (48 + n mod 10)) = n mod 10"
      unfolding digit_of_def by (subst digit_char, assumption) simp
    from False "1.IH" have "atoi_loop (nat_String (n div 10)) = n div 10"
      by (simp add: atoi_loop_positional)
    then have "atoi_loop (nat_String (n div 10) @ [char_of (48 + n mod 10)]) = n"
      by (simp add: atoi_loop_def d)
    with False show ?thesis
      by (subst nat_String.simps) (simp add: atoi_loop_positional)
  qed
qed

lemma nat_String_leading: "0 < n \<Longrightarrow> hd (nat_String n) \<noteq> CHR ''0''"
proof (induction n rule: nat_String.induct)
  case (1 n)
  show ?case
  proof (cases "n < 10")
    case True
    with "1.prems" have "of_char (char_of (48 + n)) \<noteq> (of_char CHR ''0'' :: nat)"
      by (subst digit_char) simp_all
    then have "char_of (48 + n) \<noteq> CHR ''0''"
      by metis
    with True show ?thesis
      by (subst nat_String.simps) simp
  next
    case False
    then have "0 < n div 10" by simp
    with False "1.IH" have "hd (nat_String (n div 10)) \<noteq> CHR ''0''"
      by simp
    with False show ?thesis
      by (subst nat_String.simps) (simp add: nat_String_nonempty)
  qed
qed

lemma char_of_0: "char_of (48::nat) = CHR ''0''"
  by code_simp

lemma char_of_1: "char_of (49::nat) = CHR ''1''"
  by code_simp

lemma nat_String_1e16: "nat_String (10 ^ 16) = ''10000000000000000''"
  by (simp add: nat_String.simps char_of_0 char_of_1)

lemma nat_String_1e20: "nat_String (10 ^ 20) = ''100000000000000000000''"
  by (simp add: nat_String.simps char_of_0 char_of_1)

lemma float64_nearest_cent: "2 * \<bar>float64_value (Float64 False 5764607523034235 (- 59)) - 1 / 100\<bar> \<le> 2 powi (- 59)"
  by (simp add: dyadic_def power_int_def abs_le_iff power_one_over field_simps)

lemma float64_hundred: "float64_value (Float64 False 100 0) = 100"
  by (simp add: dyadic_def)

lemma round_cent: "round_mantissa 53 (5764607523034235 * 3814697265625) (- 41) = (5000000000000000, 1)"
  by (simp add: round_mantissa_def bit_length.simps Let_def)

lemma cent_product_not_integral: "float64_value (Float64 False 5764607523034235 (- 59)) * 10 ^ 18 \<notin> \<int>"
proof -
  have "\<not> (2::nat) ^ 41 dvd 5764607523034235 * 5 ^ 18"
    by (simp add: dvd_eq_mod_eq_0)
  then show ?thesis
    by (simp only: float64_value.simps dyadic_scale dyadic_in_Ints) simp
qed

lemma scaleToNative_unfold:
  "scaleToNative 18 (Float64 False m e) =
     (case round_mantissa 53 (m * 5 ^ 18) (e + 18) of
        (M, E) \<Rightarrow>
          (case Float_Int (BigFloat False M E) of
             (z, accuracy) \<Rightarrow> if accuracy \<noteq> Exact
                then Inl (Errorf ''lost precision during conversion'') else Inr (Int_String z)))"
  by (simp add: scaleToNative_def SetFloat64_def Pow10_18 del: Float_Int.simps split: prod.splits)

lemma nat_String_1e16_num: "nat_String 10000000000000000 = ''10000000000000000''"
  using nat_String_1e16 by simp

lemma nat_String_1e20_num: "nat_String 100000000000000000000 = ''100000000000000000000''"
  using nat_String_1e20 by simp

lemma scaleToNative_cent: "scaleToNative 18 (Float64 False 5764607523034235 (- 59)) = Inr ''10000000000000000''"
  by (simp add: scaleToNative_unfold round_mantissa_def bit_length.simps Let_def Int_String_def nat_String_1e16_num)

lemma scaleToNative_hundred: "scaleToNative 18 (Float64 False 100 0) = Inr ''100000000000000000000''"
  by (simp add: scaleToNative_unfold round_mantissa_def bit_length.simps Let_def Int_String_def nat_String_1e20_num)

lemma scaleToNative_loss: "scaleToNative 18 (Float64 False 1 (- 70)) = Inl (Errorf ''lost precision during conversion'')"
  by (simp add: scaleToNative_unfold round_mantissa_def bit_length.simps Let_def Int_String_def)

text \<open>
  C1 (as amended). For every finite non-negative \<open>float64\<close> amount and every known
  symbol (the precision \<open>p\<close> is always 18), \<open>toNative\<close> multiplies the amount by
  \<open>10^p\<close> in \<open>big.Float\<close> arithmetic of 53 bits: the product is rounded to 53
  significant bits, to nearest with ties to even, so its mantissa \<open>M\<close> is at most
  \<open>2^53\<close> and it is within half a unit of its last place of the exact product. \<open>toNative\<close> returns the error
  \<open>lost precision during conversion\<close> exactly when this rounded product is not an
  integer, and otherwise the decimal string of the rounded product. When the exact
  product needs at most 53 bits, it is not rounded, and then a non-integral product
  always gives the error. The \<open>toNative\<close> of the repayment example does the same.
\<close>

theorem toNative_rounded_product:
  assumes "is_float64 (Float64 False m e)" and "precision_map syms symbol = Some p"
  shows "\<exists>M E. round_mantissa 53 (m * 5 ^ p) (e + int p) = (M, E) \<and> M \<le> 2 ^ 53 \<and>
           2 * \<bar>dyadic False M E - float64_value (Float64 False m e) * 10 ^ p\<bar> \<le> 2 powi E \<and>
           (bit_length (m * 5 ^ p) \<le> 53 \<longrightarrow>
              dyadic False M E = float64_value (Float64 False m e) * 10 ^ p) \<and>
           (dyadic False M E \<notin> \<int> \<longrightarrow>
              toNative (Inr syms) symbol (Float64 False m e) =
                Inl (Errorf ''lost precision during conversion'')) \<and>
           (dyadic False M E \<in> \<int> \<longrightarrow>
              (\<exists>n. of_nat n = dyadic False M E \<and>
                   toNative (Inr syms) symbol (Float64 False m e) = Inr (nat_String n))) \<and>
           toNative_repay (Float64 False m e) = toNative (Inr syms) symbol (Float64 False m e)"
proof -
  have p: "p = 18"
    using assms(2) by (rule precision_map_18)
  obtain M E where r: "round_mantissa 53 (m * 5 ^ 18) (e + 18) = (M, E)"
    by (cases "round_mantissa 53 (m * 5 ^ 18) (e + 18)") blast
  have exact: "float64_value (Float64 False m e) * 10 ^ 18 = dyadic False (m * 5 ^ 18) (e + 18)"
    using dyadic_scale [of False m e 18] by simp
  have err: "2 * \<bar>dyadic False M E - float64_value (Float64 False m e) * 10 ^ 18\<bar> \<le> 2 powi E"
    unfolding exact by (rule round_mantissa_error [OF r])
  have same: "bit_length (m * 5 ^ 18) \<le> 53 \<longrightarrow>
      dyadic False M E = float64_value (Float64 False m e) * 10 ^ 18"
    unfolding exact using r by (auto simp only: round_mantissa_exact)
  have call: "toNative (Inr syms) symbol (Float64 False m e) = scaleToNative 18 (Float64 False m e)"
    using assms(2) by (simp add: toNative_def p)
  have unfold: "scaleToNative 18 (Float64 False m e) =
       (case Float_Int (BigFloat False M E) of
          (z, accuracy) \<Rightarrow> if accuracy \<noteq> Exact
             then Inl (Errorf ''lost precision during conversion'') else Inr (Int_String z))"
    by (simp only: scaleToNative_unfold r prod.case)
  have loss: "dyadic False M E \<notin> \<int> \<longrightarrow>
      scaleToNative 18 (Float64 False m e) = Inl (Errorf ''lost precision during conversion'')"
  proof
    assume "dyadic False M E \<notin> \<int>"
    then have "snd (Float_Int (BigFloat False M E)) \<noteq> Exact"
      by (simp only: Float_Int_exact not_False_eq_True)
    then show "scaleToNative 18 (Float64 False m e) = Inl (Errorf ''lost precision during conversion'')"
      unfolding unfold by (cases "Float_Int (BigFloat False M E)") simp
  qed
  have ok: "dyadic False M E \<in> \<int> \<longrightarrow>
      (\<exists>n. of_nat n = dyadic False M E \<and> scaleToNative 18 (Float64 False m e) = Inr (nat_String n))"
  proof
    assume "dyadic False M E \<in> \<int>"
    then obtain n where n: "Float_Int (BigFloat False M E) = (Some (int n), Exact)"
      "of_nat n = dyadic False M E"
      using Float_Int_value by blast
    have "scaleToNative 18 (Float64 False m e) = Inr (nat_String n)"
      unfolding unfold n(1) by (simp add: Int_String_def)
    with n(2) show "\<exists>n. of_nat n = dyadic False M E \<and>
        scaleToNative 18 (Float64 False m e) = Inr (nat_String n)"
      by blast
  qed
  have repay: "toNative_repay (Float64 False m e) = toNative (Inr syms) symbol (Float64 False m e)"
    by (simp only: call toNative_repay_def)
  have fits: "M \<le> 2 ^ 53"
    by (rule round_mantissa_fits [OF r])
  from r fits err same loss ok repay show ?thesis
    unfolding p call by (intro exI [of _ M] exI [of _ E]) simp
qed

theorem toNative_rounded_product_witness:
  "is_float64 (Float64 False 5764607523034235 (- 59)) \<and>
   precision_map [''ETH''] ''ETH'' = Some 18 \<and>
   (\<exists>M E. round_mantissa 53 (5764607523034235 * 5 ^ 18) (- 59 + int 18) = (M, E) \<and>
      2 * \<bar>dyadic False M E - float64_value (Float64 False 5764607523034235 (- 59)) * 10 ^ 18\<bar>
        \<le> 2 powi E \<and>
      (dyadic False M E \<in> \<int> \<longrightarrow>
         (\<exists>n. of_nat n = dyadic False M E \<and>
              toNative (Inr [''ETH'']) ''ETH'' (Float64 False 5764607523034235 (- 59)) =
                Inr (nat_String n)))) \<and>
   is_float64 (Float64 False 1 (- 70)) \<and>
   (\<exists>M E. round_mantissa 53 (1 * 5 ^ 18) (- 70 + int 18) = (M, E) \<and>
      bit_length (1 * 5 ^ 18) \<le> 53 \<and>
      dyadic False M E = float64_value (Float64 False 1 (- 70)) * 10 ^ 18 \<and>
      (dyadic False M E \<notin> \<int> \<longrightarrow>
         toNative (Inr [''ETH'']) ''ETH'' (Float64 False 1 (- 70)) =
           Inl (Errorf ''lost precision during conversion'')))"
proof -
  have f1: "is_float64 (Float64 False 5764607523034235 (- 59))"
    and f2: "is_float64 (Float64 False 1 (- 70))"
    by (simp_all add: is_float64_def)
  have k: "precision_map [''ETH''] ''ETH'' = Some 18"
    by (simp add: precision_map_known)
  have b: "bit_length (1 * 5 ^ 18) \<le> 53"
    by (simp add: bit_length.simps)
  from toNative_rounded_product [OF f1 k]
  have a1: "\<exists>M E. round_mantissa 53 (5764607523034235 * 5 ^ 18) (- 59 + int 18) = (M, E) \<and>
      2 * \<bar>dyadic False M E - float64_value (Float64 False 5764607523034235 (- 59)) * 10 ^ 18\<bar>
        \<le> 2 powi E \<and>
      (dyadic False M E \<in> \<int> \<longrightarrow>
         (\<exists>n. of_nat n = dyadic False M E \<and>
              toNative (Inr [''ETH'']) ''ETH'' (Float64 False 5764607523034235 (- 59)) =
                Inr (nat_String n)))"
    by blast
  from toNative_rounded_product [OF f2 k] b
  have a2: "\<exists>M E. round_mantissa 53 (1 * 5 ^ 18) (- 70 + int 18) = (M, E) \<and>
      bit_length (1 * 5 ^ 18) \<le> 53 \<and>
      dyadic False M E = float64_value (Float64 False 1 (- 70)) * 10 ^ 18 \<and>
      (dyadic False M E \<notin> \<int> \<longrightarrow>
         toNative (Inr [''ETH'']) ''ETH'' (Float64 False 1 (- 70)) =
           Inl (Errorf ''lost precision during conversion''))"
    by blast
  from f1 f2 k a1 a2 show ?thesis
    by (intro conjI)
qed

text \<open>
  C1 (counterexample). The \<open>float64\<close> nearest to 0.01 is
  \<open>5764607523034235 * 2^-59\<close>. Its exact product with \<open>10^18\<close> is not an integer
  (it is \<open>10^16 + 0.208...\<close>), yet \<open>toNative\<close> returns the integer string
  \<open>10000000000000000\<close> and no error: the product has been rounded.
\<close>

theorem toNative_silent_rounding_counterexample:
  "is_float64 (Float64 False 5764607523034235 (- 59)) \<and>
   precision_map [] ''ZAR'' = Some 18 \<and>
   float64_value (Float64 False 5764607523034235 (- 59)) * 10 ^ 18 \<notin> \<int> \<and>
   toNative (Inr []) ''ZAR'' (Float64 False 5764607523034235 (- 59)) = Inr ''10000000000000000''"
proof -
  have "is_float64 (Float64 False 5764607523034235 (- 59))"
    by (simp add: is_float64_def)
  moreover have k: "precision_map [] ''ZAR'' = Some 18"
    by (simp add: precision_map_known)
  moreover have "toNative (Inr []) ''ZAR'' (Float64 False 5764607523034235 (- 59)) =
      Inr ''10000000000000000''"
    by (simp add: toNative_def k scaleToNative_cent)
  ultimately show ?thesis
    using cent_product_not_integral by (intro conjI)
qed

text \<open>
  C2. For every known symbol (all have 18 decimals), \<open>toNative\<close> maps the amount
  0.01 to \<open>10000000000000000\<close> and the amount 100 to \<open>100000000000000000000\<close>, with no
  error; so does the \<open>toNative\<close> of the repayment example. The two arguments are the
  \<open>float64\<close> values of the literals: 100 exactly, and for 0.01 the value within half
  a unit in the last place of 1/100. Each output is the decimal representation of
  \<open>10^16\<close>, respectively \<open>10^20\<close>: digits only, no sign, no leading zero.
\<close>

theorem toNative_examples:
  assumes "symbol = ''ZAR'' \<or> symbol \<in> set syms"
  shows "toNative (Inr syms) symbol (Float64 False 5764607523034235 (- 59)) =
           Inr ''10000000000000000'' \<and>
         toNative (Inr syms) symbol (Float64 False 100 0) = Inr ''100000000000000000000'' \<and>
         toNative_repay (Float64 False 5764607523034235 (- 59)) = Inr ''10000000000000000'' \<and>
         toNative_repay (Float64 False 100 0) = Inr ''100000000000000000000'' \<and>
         is_float64 (Float64 False 5764607523034235 (- 59)) \<and> 2 ^ 52 \<le> (5764607523034235::nat) \<and>
         2 * \<bar>float64_value (Float64 False 5764607523034235 (- 59)) - 1 / 100\<bar> \<le> 2 powi (- 59) \<and>
         is_float64 (Float64 False 100 0) \<and> float64_value (Float64 False 100 0) = 100 \<and>
         (\<forall>s \<in> {''10000000000000000'', ''100000000000000000000''}.
            list_all is_digit s \<and> hd s \<noteq> CHR ''0'') \<and>
         positional_value ''10000000000000000'' = 10 ^ 16 \<and>
         positional_value ''100000000000000000000'' = 10 ^ 20"
proof -
  have k: "precision_map syms symbol = Some 18"
    using assms by (auto simp: precision_map_known)
  have a: "toNative (Inr syms) symbol (Float64 False 5764607523034235 (- 59)) =
           Inr ''10000000000000000''"
    and b: "toNative (Inr syms) symbol (Float64 False 100 0) = Inr ''100000000000000000000''"
    by (simp_all add: toNative_def k scaleToNative_cent scaleToNative_hundred)
  have c: "toNative_repay (Float64 False 5764607523034235 (- 59)) = Inr ''10000000000000000''"
    and d: "toNative_repay (Float64 False 100 0) = Inr ''100000000000000000000''"
    by (simp_all add: toNative_repay_def scaleToNative_cent scaleToNative_hundred)
  have f: "is_float64 (Float64 False 5764607523034235 (- 59))" "is_float64 (Float64 False 100 0)"
    "2 ^ 52 \<le> (5764607523034235::nat)"
    by (simp_all add: is_float64_def)
  have d16: "list_all is_digit ''10000000000000000'' \<and> hd ''10000000000000000'' \<noteq> CHR ''0''"
    using nat_String_digits [of "10 ^ 16"] nat_String_leading [of "10 ^ 16"]
    unfolding nat_String_1e16 by simp
  have d20: "list_all is_digit ''100000000000000000000'' \<and> hd ''100000000000000000000'' \<noteq> CHR ''0''"
    using nat_String_digits [of "10 ^ 20"] nat_String_leading [of "10 ^ 20"]
    unfolding nat_String_1e20 by simp
  have v16: "positional_value ''10000000000000000'' = 10 ^ 16"
    using nat_String_value [of "10 ^ 16"] unfolding nat_String_1e16 .
  have v20: "positional_value ''100000000000000000000'' = 10 ^ 20"
    using nat_String_value [of "10 ^ 20"] unfolding nat_String_1e20 .
  from d16 d20 have ds: "\<forall>s \<in> {''10000000000000000'', ''100000000000000000000''}.
            list_all is_digit s \<and> hd s \<noteq> CHR ''0''"
    by blast
  from a b c d f float64_nearest_cent float64_hundred ds v16 v20 show ?thesis
    by (intro conjI)
qed

theorem toNative_examples_witness:
  "(''ETH'' = ''ZAR'' \<or> ''ETH'' \<in> set [''ETH'', ''BTC'']) \<and>
   toNative (Inr [''ETH'', ''BTC'']) ''ETH'' (Float64 False 5764607523034235 (- 59)) =
     Inr ''10000000000000000'' \<and>
   toNative (Inr [''ETH'', ''BTC'']) ''ETH'' (Float64 False 100 0) = Inr ''100000000000000000000''"
proof -
  have h: "''ETH'' = ''ZAR'' \<or> ''ETH'' \<in> set [''ETH'', ''BTC'']"
    by simp
  from toNative_examples [OF h] h show ?thesis
    by blast
qed

section \<open>Properties of the transaction log\<close>

text \<open>
  C7. Whatever sequence the log file holds before (the empty sequence when the file
  is absent), \<open>SaveTransactionDetails\<close> on a file system that lets the file be
  rewritten returns no error, and reading the file afterwards gives the prior
  sequence followed by the new entry: the last element is the entry just appended and
  the earlier entries are the prior ones, in their order.
\<close>

theorem append_then_read:
  assumes "readExisting file = Inr prior" and "can_create fs" and "can_write fs"
  shows "\<exists>file'. SaveTransactionDetails now fs file tx txHash vaultID = (None, file') \<and>
           readExisting file' =
             Inr (prior @ [\<lparr>Timestamp = now, Tx = tx, TxHash = txHash, VaultID = vaultID\<rparr>]) \<and>
           (\<forall>entries. readExisting file' = Inr entries \<longrightarrow>
              last entries = \<lparr>Timestamp = now, Tx = tx, TxHash = txHash, VaultID = vaultID\<rparr> \<and>
              length entries = Suc (length prior) \<and>
              (\<forall>i < length prior. entries ! i = prior ! i))"
  using assms by (simp add: SaveTransactionDetails_def nth_append)

theorem append_then_read_witness:
  "(let fs = \<lparr>can_create = True, can_write = True\<rparr>;
        tx = \<lparr>From = ''0xA'', To = ''0xB'', Value = 0, Gas = 21000, GasPrice = 5, Nonce = 7,
               ChainID = 1, Data = ''0x''\<rparr>;
        old = \<lparr>Timestamp = ''2024-01-01T00:00:00Z'', Tx = tx, TxHash = ''0x01'', VaultID = 3\<rparr>;
        new = \<lparr>Timestamp = ''2024-01-02T00:00:00Z'', Tx = tx, TxHash = ''0x02'', VaultID = - 1\<rparr>
    in readExisting Absent = Inr [] \<and> readExisting (Holds [old]) = Inr [old] \<and>
       can_create fs \<and> can_write fs \<and>
       SaveTransactionDetails ''2024-01-02T00:00:00Z'' fs Absent tx ''0x02'' (- 1) =
         (None, Holds [new]) \<and>
       SaveTransactionDetails ''2024-01-02T00:00:00Z'' fs (Holds [old]) tx ''0x02'' (- 1) =
         (None, Holds [old, new]))"
proof -
  define fs where "fs = \<lparr>can_create = True, can_write = True\<rparr>"
  define tx where "tx = \<lparr>From = ''0xA'', To = ''0xB'', Value = 0, Gas = 21000, GasPrice = 5,
    Nonce = 7, ChainID = 1, Data = ''0x''\<rparr>"
  define old where
    "old = \<lparr>Timestamp = ''2024-01-01T00:00:00Z'', Tx = tx, TxHash = ''0x01'', VaultID = 3\<rparr>"
  define new where
    "new = \<lparr>Timestamp = ''2024-01-02T00:00:00Z'', Tx = tx, TxHash = ''0x02'', VaultID = - 1\<rparr>"
  have c: "can_create fs" and w: "can_write fs"
    by (simp_all add: fs_def)
  have r0: "readExisting Absent = Inr []" and r1: "readExisting (Holds [old]) = Inr [old]"
    by simp_all
  have inv: "\<And>f xs. readExisting f = Inr xs \<Longrightarrow> f \<noteq> Absent \<Longrightarrow> f = Holds xs"
    by (case_tac f) simp_all
  from append_then_read [OF r0 c w, of "''2024-01-02T00:00:00Z''" tx "''0x02''" "- 1"]
  obtain f0 where f0: "SaveTransactionDetails ''2024-01-02T00:00:00Z'' fs Absent tx ''0x02'' (- 1) =
      (None, f0)" "readExisting f0 = Inr [new]"
    unfolding new_def by auto
  from f0(1) have "f0 \<noteq> Absent"
    by (auto simp: SaveTransactionDetails_def c w)
  with f0 have a: "SaveTransactionDetails ''2024-01-02T00:00:00Z'' fs Absent tx ''0x02'' (- 1) =
      (None, Holds [new])"
    by (simp add: inv)
  from append_then_read [OF r1 c w, of "''2024-01-02T00:00:00Z''" tx "''0x02''" "- 1"]
  obtain f1 where f1: "SaveTransactionDetails ''2024-01-02T00:00:00Z'' fs (Holds [old]) tx ''0x02'' (- 1) =
      (None, f1)" "readExisting f1 = Inr [old, new]"
    unfolding new_def by auto
  from f1(1) have "f1 \<noteq> Absent"
    by (auto simp: SaveTransactionDetails_def c w)
  with f1 have b: "SaveTransactionDetails ''2024-01-02T00:00:00Z'' fs (Holds [old]) tx ''0x02'' (- 1) =
      (None, Holds [old, new])"
    by (simp add: inv)
  show ?thesis
    using a b c w r1
    unfolding Let_def fs_def [symmetric] tx_def [symmetric] old_def [symmetric] new_def [symmetric]
    by simp
qed

text \<open>
  C8. For a log file that holds a non-empty sequence, on a file system that lets the
  file be rewritten, patching the vault id returns no error, and the file then holds
  a sequence of the same length in which every entry before the last is unchanged and
  the last entry differs from the old last entry in its \<open>VaultID\<close> only, which is
  the supplied id. Equal entries have equal serializations.
\<close>

theorem patch_last_vault_id:
  assumes "file = Holds transactions" and "transactions \<noteq> []"
    and "can_create fs" and "can_write fs"
  shows "\<exists>updated. PatchLastVaultId fs file vaultId = (None, Holds updated) \<and>
           readExisting (Holds updated) = Inr updated \<and>
           length updated = length transactions \<and>
           (\<forall>i. Suc i < length transactions \<longrightarrow> updated ! i = transactions ! i) \<and>
           butlast updated = butlast transactions \<and>
           last updated = (last transactions)\<lparr>VaultID := vaultId\<rparr> \<and>
           VaultID (last updated) = vaultId \<and>
           Timestamp (last updated) = Timestamp (last transactions) \<and>
           Tx (last updated) = Tx (last transactions) \<and>
           TxHash (last updated) = TxHash (last transactions)"
proof -
  from assms(2) obtain ys y where xs: "transactions = ys @ [y]"
    by (cases transactions rule: rev_cases) auto
  have "PatchLastVaultId fs file vaultId = (None, Holds (ys @ [y\<lparr>VaultID := vaultId\<rparr>]))"
    using assms(1,3,4) by (simp add: PatchLastVaultId_def xs)
  then show ?thesis
    by (simp add: xs nth_append)
qed

theorem patch_last_vault_id_witness:
  "(let fs = \<lparr>can_create = True, can_write = True\<rparr>;
        tx = \<lparr>From = ''0xA'', To = ''0xB'', Value = 0, Gas = 21000, GasPrice = 5, Nonce = 7,
               ChainID = 1, Data = ''0x''\<rparr>;
        e1 = \<lparr>Timestamp = ''2024-01-01T00:00:00Z'', Tx = tx, TxHash = ''0x01'', VaultID = 3\<rparr>;
        e2 = \<lparr>Timestamp = ''2024-01-02T00:00:00Z'', Tx = tx, TxHash = ''0x02'', VaultID = - 1\<rparr>
    in [e1, e2] \<noteq> [] \<and> can_create fs \<and> can_write fs \<and>
       PatchLastVaultId fs (Holds [e1, e2]) 42 = (None, Holds [e1, e2\<lparr>VaultID := 42\<rparr>]))"
proof -
  define fs where "fs = \<lparr>can_create = True, can_write = True\<rparr>"
  define tx where "tx = \<lparr>From = ''0xA'', To = ''0xB'', Value = 0, Gas = 21000, GasPrice = 5,
    Nonce = 7, ChainID = 1, Data = ''0x''\<rparr>"
  define e1 where
    "e1 = \<lparr>Timestamp = ''2024-01-01T00:00:00Z'', Tx = tx, TxHash = ''0x01'', VaultID = 3\<rparr>"
  define e2 where
    "e2 = \<lparr>Timestamp = ''2024-01-02T00:00:00Z'', Tx = tx, TxHash = ''0x02'', VaultID = - 1\<rparr>"
  have c: "can_create fs" and w: "can_write fs"
    by (simp_all add: fs_def)
  have n: "[e1, e2] \<noteq> []"
    by simp
  from patch_last_vault_id [OF refl n c w, of 42]
  obtain updated where u: "PatchLastVaultId fs (Holds [e1, e2]) 42 = (None, Holds updated)"
    "length updated = length [e1, e2]" "butlast updated = butlast [e1, e2]"
    "last updated = (last [e1, e2])\<lparr>VaultID := 42\<rparr>"
    by blast
  from u(2) have "updated \<noteq> []"
    by auto
  then have "updated = butlast updated @ [last updated]"
    by simp
  with u(3,4) have "updated = [e1, e2\<lparr>VaultID := 42\<rparr>]"
    by simp
  with u(1) c w show ?thesis
    unfolding Let_def fs_def [symmetric] tx_def [symmetric] e1_def [symmetric] e2_def [symmetric]
    by simp
qed

section \<open>Properties of the wait for a receipt\<close>

lemma wait_loop_not_found:
  "\<not> is_found (R k) \<Longrightarrow> now - start < maxWait \<Longrightarrow>
   wait_loop R L maxWait ci start k now =
     wait_loop R L maxWait ci start (Suc k) (now + L k + max 0 ci)"
  by (subst wait_loop.simps) (simp add: is_found_def split: poll_result.splits)

lemma wait_loop_expired:
  "\<not> now - start < maxWait \<Longrightarrow>
   wait_loop R L maxWait ci start k now = Some (Inl (Errorf ''transaction not mined''), now)"
  by (subst wait_loop.simps) simp

lemma wait_loop_found:
  "R k = ReceiptFound r \<Longrightarrow> now - start < maxWait \<Longrightarrow>
   wait_loop R L maxWait ci start k now = Some (Inr r, now + L k)"
  by (subst wait_loop.simps) simp

lemma wait_loop_terminates:
  assumes "\<forall>j. 0 < L j + max 0 ci"
  shows "\<exists>res. wait_loop R L maxWait ci start k now = Some res"
proof (induction "nat (maxWait - (now - start))" arbitrary: k now rule: less_induct)
  case less
  show ?case
  proof (cases "now - start < maxWait")
    case False
    then show ?thesis by (simp add: wait_loop_expired)
  next
    case True
    show ?thesis
    proof (cases "is_found (R k)")
      case found: True
      then obtain r where "R k = ReceiptFound r"
        by (auto simp: is_found_def split: poll_result.splits)
      with True show ?thesis by (simp add: wait_loop_found)
    next
      case nf: False
      have "0 < L k + max 0 ci" using assms by simp
      with True
      have "nat (maxWait - (now + L k + max 0 ci - start)) < nat (maxWait - (now - start))"
        by simp
      from less [OF this] nf True show ?thesis
        by (simp add: wait_loop_not_found)
    qed
  qed
qed

lemma wait_loop_timeout:
  assumes "\<forall>j. 0 < L j + max 0 ci" and "\<forall>j. L j \<le> d"
    and "\<forall>j. poll_time L ci start j - start < maxWait \<longrightarrow> \<not> is_found (R j)"
  shows "\<exists>t. wait_loop R L maxWait ci start k (poll_time L ci start k) =
               Some (Inl (Errorf ''transaction not mined''), t) \<and>
             maxWait \<le> t - start \<and> poll_time L ci start k \<le> t \<and>
             (t = poll_time L ci start k \<or> t - start < maxWait + max 0 ci + d)"
proof (induction "nat (maxWait - (poll_time L ci start k - start))" arbitrary: k rule: less_induct)
  case less
  define now where "now = poll_time L ci start k"
  show ?case
  proof (cases "now - start < maxWait")
    case False
    then show ?thesis by (simp add: wait_loop_expired now_def)
  next
    case True
    have nf: "\<not> is_found (R k)" using assms(3) True by (simp add: now_def)
    have l: "0 < L k + max 0 ci" "L k \<le> d" using assms(1,2) by simp_all
    define now' where "now' = poll_time L ci start (Suc k)"
    have step: "now' = now + L k + max 0 ci"
      by (simp add: now'_def now_def)
    from True l
    have "nat (maxWait - (poll_time L ci start (Suc k) - start)) <
          nat (maxWait - (poll_time L ci start k - start))"
      using step by (simp add: now'_def now_def)
    from less [OF this] obtain t where
      t: "wait_loop R L maxWait ci start (Suc k) now' = Some (Inl (Errorf ''transaction not mined''), t)"
        "maxWait \<le> t - start" "now' \<le> t" "t = now' \<or> t - start < maxWait + max 0 ci + d"
      unfolding now'_def by blast
    have "wait_loop R L maxWait ci start k now = Some (Inl (Errorf ''transaction not mined''), t)"
      using nf True t(1) by (simp add: wait_loop_not_found step)
    moreover have "now \<le> t"
      using t(3) l by (simp add: step)
    moreover have "t - start < maxWait + max 0 ci + d"
      using t(4) True l by (auto simp: step)
    ultimately show ?thesis
      using t(2) unfolding now_def by blast
  qed
qed

lemma poll_time_mono:
  assumes "\<forall>j. 0 < L j + max 0 ci"
  shows "k \<le> n \<Longrightarrow> poll_time L ci start k \<le> poll_time L ci start n"
proof (induction n)
  case 0
  then show ?case by simp
next
  case (Suc n)
  have "0 < L n + max 0 ci" using assms by simp
  with Suc show ?case
    by (cases "k = Suc n") (auto simp: le_Suc_eq)
qed

lemma wait_loop_reaches:
  assumes "\<forall>j. 0 < L j + max 0 ci" and "\<forall>i < n. \<not> is_found (R i)" and "R n = ReceiptFound r"
    and "poll_time L ci start n - start < maxWait"
  shows "k \<le> n \<Longrightarrow> wait_loop R L maxWait ci start k (poll_time L ci start k) =
           Some (Inr r, poll_time L ci start n + L n)"
proof (induction "n - k" arbitrary: k)
  case 0
  then have "k = n" by simp
  with assms(3,4) show ?case by (simp add: wait_loop_found)
next
  case (Suc m)
  then have k: "k < n" "m = n - Suc k" "Suc k \<le> n" by simp_all
  have "poll_time L ci start k \<le> poll_time L ci start n"
    using poll_time_mono [OF assms(1)] k(1) by simp
  with assms(4) have "poll_time L ci start k - start < maxWait" by simp
  moreover have "\<not> is_found (R k)" using assms(2) k(1) by simp
  ultimately have "wait_loop R L maxWait ci start k (poll_time L ci start k) =
      wait_loop R L maxWait ci start (Suc k) (poll_time L ci start (Suc k))"
    by (simp add: wait_loop_not_found)
  with Suc.hyps(1) [OF k(2) k(3)] show ?case by simp
qed

lemma poll_time_two_second:
  "poll_time two_second_queries (15 * second) 0 k = 17 * second * int k"
  by (induction k) (simp_all add: two_second_queries_def second_def)

text \<open>
  C9 (as amended). Time passes in every round of the loop: the query and the sleep
  (a \<open>checkInterval\<close> that is not positive counting as no sleep) together take
  positive time. Then \<open>waitForTransactionReceipt\<close> always returns. If no query that
  starts before \<open>maxWaitTime\<close> has passed finds a receipt (whatever later queries
  would find), it returns the timeout error, after no less than \<open>maxWaitTime\<close> and,
  when every query takes at most \<open>d\<close>, after less than
  \<open>maxWaitTime + checkInterval + d\<close> (at once when \<open>maxWaitTime\<close> is not positive);
  with queries that take no time this is the bound \<open>maxWaitTime + checkInterval\<close>.
  If the first receipt is found by a query that starts before \<open>maxWaitTime\<close> has
  passed, it returns that receipt and no error.
\<close>

theorem waitForTransactionReceipt_bounds:
  assumes "\<forall>k. 0 < latency k + max 0 checkInterval"
  shows "(\<exists>res. waitForTransactionReceipt R latency maxWaitTime checkInterval startTime = Some res) \<and>
         ((\<forall>k. poll_time latency checkInterval startTime k - startTime < maxWaitTime \<longrightarrow>
                 \<not> is_found (R k)) \<longrightarrow>
            (\<forall>d. (\<forall>k. latency k \<le> d) \<longrightarrow>
               (\<exists>t. waitForTransactionReceipt R latency maxWaitTime checkInterval startTime =
                      Some (Inl (Errorf ''transaction not mined''), t) \<and>
                    maxWaitTime \<le> t - startTime \<and>
                    (0 < maxWaitTime \<longrightarrow>
                       t - startTime < maxWaitTime + max 0 checkInterval + d) \<and>
                    (maxWaitTime \<le> 0 \<longrightarrow> t = startTime)))) \<and>
         (\<forall>n r. (\<forall>i < n. \<not> is_found (R i)) \<and> R n = ReceiptFound r \<and>
                 poll_time latency checkInterval startTime n - startTime < maxWaitTime \<longrightarrow>
            waitForTransactionReceipt R latency maxWaitTime checkInterval startTime =
              Some (Inr r, poll_time latency checkInterval startTime n + latency n))"
proof (intro conjI allI impI)
  show "\<exists>res. waitForTransactionReceipt R latency maxWaitTime checkInterval startTime = Some res"
    unfolding waitForTransactionReceipt_def by (rule wait_loop_terminates [OF assms])
next
  fix d
  assume nf: "\<forall>k. poll_time latency checkInterval startTime k - startTime < maxWaitTime \<longrightarrow>
                 \<not> is_found (R k)"
    and d: "\<forall>k. latency k \<le> d"
  from wait_loop_timeout [OF assms d nf, of 0]
  obtain t where t: "wait_loop R latency maxWaitTime checkInterval startTime 0 startTime =
        Some (Inl (Errorf ''transaction not mined''), t)"
      "maxWaitTime \<le> t - startTime" "startTime \<le> t"
      "t = startTime \<or> t - startTime < maxWaitTime + max 0 checkInterval + d"
    by auto
  have z: "maxWaitTime \<le> 0 \<longrightarrow> t = startTime"
  proof
    assume "maxWaitTime \<le> 0"
    then have "\<not> startTime - startTime < maxWaitTime" by simp
    from wait_loop_expired [OF this] t(1) show "t = startTime" by simp
  qed
  have pos: "0 < max 0 checkInterval + d"
    using assms d by (metis add.commute add_le_cancel_left less_le_trans)
  from t z pos show "\<exists>t. waitForTransactionReceipt R latency maxWaitTime checkInterval startTime =
                      Some (Inl (Errorf ''transaction not mined''), t) \<and>
                    maxWaitTime \<le> t - startTime \<and>
                    (0 < maxWaitTime \<longrightarrow>
                       t - startTime < maxWaitTime + max 0 checkInterval + d) \<and>
                    (maxWaitTime \<le> 0 \<longrightarrow> t = startTime)"
    unfolding waitForTransactionReceipt_def by auto
next
  fix n r
  assume h: "(\<forall>i < n. \<not> is_found (R i)) \<and> R n = ReceiptFound r \<and>
                 poll_time latency checkInterval startTime n - startTime < maxWaitTime"
  then have "wait_loop R latency maxWaitTime checkInterval startTime 0
               (poll_time latency checkInterval startTime 0) =
             Some (Inr r, poll_time latency checkInterval startTime n + latency n)"
    using assms by (intro wait_loop_reaches) simp_all
  then show "waitForTransactionReceipt R latency maxWaitTime checkInterval startTime =
              Some (Inr r, poll_time latency checkInterval startTime n + latency n)"
    by (simp add: waitForTransactionReceipt_def)
qed

theorem waitForTransactionReceipt_bounds_witness:
  "(\<forall>k. 0 < two_second_queries k + max 0 (15 * second)) \<and>
   (\<forall>k. two_second_queries k \<le> 2 * second) \<and>
   (\<forall>k. poll_time two_second_queries (15 * second) 0 k = 17 * second * int k) \<and>
   (\<forall>k. is_found (mined_late k) = (8 \<le> k)) \<and>
   (\<exists>t. waitForTransactionReceipt mined_late two_second_queries (120 * second) (15 * second) 0 =
           Some (Inl (Errorf ''transaction not mined''), t) \<and>
         120 * second \<le> t - 0 \<and> t - 0 < 120 * second + max 0 (15 * second) + 2 * second) \<and>
   (\<forall>k. \<not> is_found (never_mined k)) \<and>
   (\<exists>t. waitForTransactionReceipt never_mined two_second_queries (120 * second) (15 * second) 0 =
           Some (Inl (Errorf ''transaction not mined''), t) \<and>
         120 * second \<le> t - 0 \<and> t - 0 < 120 * second + max 0 (15 * second) + 2 * second) \<and>
   \<not> is_found (mined_at_third_query 0) \<and> \<not> is_found (mined_at_third_query 1) \<and>
   mined_at_third_query 2 = ReceiptFound \<lparr>Status = 1, BlockNumber = 100\<rparr> \<and>
   poll_time two_second_queries (15 * second) 0 2 - 0 < 120 * second \<and>
   waitForTransactionReceipt mined_at_third_query two_second_queries (120 * second) (15 * second) 0 =
     Some (Inr \<lparr>Status = 1, BlockNumber = 100\<rparr>, 36 * second)"
proof -
  have round: "\<forall>k. 0 < two_second_queries k + max 0 (15 * second)"
    and d: "\<forall>k. two_second_queries k \<le> 2 * second" and pos: "0 < 120 * second"
    by (simp_all add: second_def two_second_queries_def)
  have pt: "\<forall>k. poll_time two_second_queries (15 * second) 0 k = 17 * second * int k"
    by (simp add: poll_time_two_second)
  have late: "\<forall>k. is_found (mined_late k) = (8 \<le> k)"
    by (simp add: mined_late_def is_found_def)
  have nfl: "\<forall>k. poll_time two_second_queries (15 * second) 0 k - 0 < 120 * second \<longrightarrow>
               \<not> is_found (mined_late k)"
    using pt late by (auto simp: second_def)
  have nf: "\<forall>k. \<not> is_found (never_mined k)"
    by (simp add: never_mined_def is_found_def)
  then have nfn: "\<forall>k. poll_time two_second_queries (15 * second) 0 k - 0 < 120 * second \<longrightarrow>
               \<not> is_found (never_mined k)"
    by simp
  have nf2: "\<forall>i < 2. \<not> is_found (mined_at_third_query i)"
    by (simp add: mined_at_third_query_def is_found_def)
  have f: "mined_at_third_query 2 = ReceiptFound \<lparr>Status = 1, BlockNumber = 100\<rparr>"
    by (simp add: mined_at_third_query_def)
  have pt2: "poll_time two_second_queries (15 * second) 0 2 = 34 * second"
    by (simp add: poll_time_two_second)
  have intime: "poll_time two_second_queries (15 * second) 0 2 - 0 < 120 * second"
    unfolding pt2 by (simp add: second_def)
  from waitForTransactionReceipt_bounds [OF round, of mined_late "120 * second" 0] nfl d pos
  have l: "\<exists>t. waitForTransactionReceipt mined_late two_second_queries (120 * second) (15 * second) 0 =
           Some (Inl (Errorf ''transaction not mined''), t) \<and>
         120 * second \<le> t - 0 \<and> t - 0 < 120 * second + max 0 (15 * second) + 2 * second"
    by blast
  from waitForTransactionReceipt_bounds [OF round, of never_mined "120 * second" 0] nfn d pos
  have a: "\<exists>t. waitForTransactionReceipt never_mined two_second_queries (120 * second) (15 * second) 0 =
           Some (Inl (Errorf ''transaction not mined''), t) \<and>
         120 * second \<le> t - 0 \<and> t - 0 < 120 * second + max 0 (15 * second) + 2 * second"
    by blast
  from waitForTransactionReceipt_bounds [OF round, of mined_at_third_query "120 * second" 0]
    nf2 f intime
  have "waitForTransactionReceipt mined_at_third_query two_second_queries (120 * second) (15 * second) 0 =
     Some (Inr \<lparr>Status = 1, BlockNumber = 100\<rparr>,
           poll_time two_second_queries (15 * second) 0 2 + two_second_queries 2)"
    by blast
  then have b: "waitForTransactionReceipt mined_at_third_query two_second_queries (120 * second)
      (15 * second) 0 = Some (Inr \<lparr>Status = 1, BlockNumber = 100\<rparr>, 36 * second)"
    by (simp add: pt2 two_second_queries_def)
  have nf3: "\<not> is_found (mined_at_third_query 0)" "\<not> is_found (mined_at_third_query 1)"
    by (simp_all add: mined_at_third_query_def is_found_def)
  from round d pt late l nf a nf3 f intime b show ?thesis
    by (intro conjI)
qed

text \<open>
  C9 (counterexample). With a wait of 120 seconds, an interval of 15 seconds and
  queries that take 2 seconds each, the loop starts its rounds at 0, 17, 34, ... and
  119 seconds and returns the timeout error after 136 seconds, later than
  \<open>maxWaitTime + checkInterval\<close> = 135 seconds.
\<close>

theorem waitForTransactionReceipt_late_counterexample:
  "waitForTransactionReceipt never_mined two_second_queries (120 * second) (15 * second) 0 =
     Some (Inl (Errorf ''transaction not mined''), 136 * second) \<and>
   \<not> 136 * second - 0 \<le> 120 * second + 15 * second"
  by (simp add: waitForTransactionReceipt_def wait_loop.simps never_mined_def
      two_second_queries_def second_def)

section \<open>Properties of the step-wise executor\<close>

lemma step_labels_append: "step_labels (xs @ ys) = step_labels xs @ step_labels ys"
  by (induction xs rule: step_labels.induct) simp_all

lemma SetString10_char:
  "SetString10 s = (if is_decimal_integer s then Some (decimal_integer_value s) else None)"
proof (cases s)
  case Nil
  then show ?thesis
    by (simp add: SetString10_def is_decimal_integer_def unsigned_part_def)
next
  case (Cons c cs)
  then show ?thesis
    by (auto simp: SetString10_def is_decimal_integer_def unsigned_part_def
        decimal_integer_value_def atoi_loop_positional list_all_iff Let_def)
qed

lemma uint64_range: "0 \<le> uint64 n" "uint64 n < 2 ^ 64"
  by (simp_all add: uint64_def)

lemma uint64_wrap: "\<exists>k. uint64 n = n + k * 2 ^ 64"
proof -
  have "uint64 n = n + (- (n div 2 ^ 64)) * 2 ^ 64"
    unfolding uint64_def by (simp add: minus_div_mult_eq_mod [symmetric])
  then show ?thesis
    by blast
qed

lemma uint64_negative: "uint64 (- 1) = 18446744073709551615"
  by (simp add: uint64_def)

lemma built_from_create_tx:
  assumes "is_decimal_integer (mp_Value (MethodParameters data))"
    and "fits_int64 (decimal_integer_value (mp_Value (MethodParameters data)))"
  shows "built_from_create data
           \<lparr>tx_nonce = nonce, tx_to = mp_To (MethodParameters data),
            tx_value = decimal_integer_value (mp_Value (MethodParameters data)),
            tx_gas = uint64 (GasUseEstimate data), tx_gasPrice = gasPrice,
            tx_data = mp_Calldata (MethodParameters data)\<rparr>"
  unfolding built_from_create_def using assms uint64_range uint64_wrap by simp

lemma built_from_repay_tx:
  assumes "is_decimal_integer (mp_Value (MethodParameters data))"
    and "hexutil_Decode e (mp_Calldata (MethodParameters data)) = Inr calldataBytes"
  shows "built_from_repay e data
           \<lparr>tx_nonce = nonce, tx_to = mp_To (MethodParameters data),
            tx_value = decimal_integer_value (mp_Value (MethodParameters data)),
            tx_gas = uint64 (GasUseEstimate data), tx_gasPrice = gasPrice,
            tx_data = calldataBytes\<rparr>"
  unfolding built_from_repay_def using assms uint64_range uint64_wrap by simp

lemma create_process_effect:
  assumes "create_process e data w h = Some (r, w', h')"
  shows "polls w' = polls w \<and> step_labels (console w') = step_labels (console w) \<and>
         ((r \<noteq> None \<and> broadcast w' = broadcast w) \<or>
          (\<exists>tx. broadcast w' = broadcast w @ [(tx, h')] \<and> built_from_create data tx))"
  using assms
  by (auto simp: create_process_def Let_def println_def built_from_create_tx step_labels_append
      Atoi_char split: option.splits sum.splits prod.splits if_splits)

lemma create_process_done:
  assumes "create_process e data w h = Some (None, w', h')"
  shows "\<exists>tx. broadcast w' = broadcast w @ [(tx, h')] \<and> built_from_create data tx"
  using create_process_effect [OF assms] by simp

lemma repay_process_effect:
  assumes "repay_process e data w h = Some (r, w', h')"
  shows "polls w' = polls w \<and> step_labels (console w') = step_labels (console w) \<and>
         ((r \<noteq> None \<and> broadcast w' = broadcast w) \<or>
          (\<exists>tx. broadcast w' = broadcast w @ [(tx, h')] \<and> built_from_repay e data tx))"
  using assms
  by (auto simp: repay_process_def Let_def println_def built_from_repay_tx step_labels_append
      SetString10_char split: option.splits sum.splits prod.splits if_splits)

lemma repay_process_done:
  assumes "repay_process e data w h = Some (None, w', h')"
  shows "\<exists>tx. broadcast w' = broadcast w @ [(tx, h')] \<and> built_from_repay e data tx"
  using repay_process_effect [OF assms] by simp

lemma create_steps_loop: "create_steps e stepNumber i steps w h = steps_loop (create_process e) stepNumber i steps w h"
  by (induction steps arbitrary: i w h) (auto simp: Let_def split: sum.splits option.splits)


lemma process_effect_create: "process_effect (create_process e) built_from_create"
  unfolding process_effect_def by (blast dest: create_process_effect)




lemma steps_loop_polls:
  assumes "process_effect process built"
    and "steps_loop process stepNumber i steps w h = Some (r, w', h')"
  shows "polls w' = polls w"
  using assms(2)
proof (induction steps arbitrary: i w h)
  case Nil
  then show ?case by simp
next
  case (Cons step steps)
  show ?case
  proof (cases "AsPreparedTx (step_Data step)")
    case (Inl err)
    with Cons.prems show ?thesis by auto
  next
    case (Inr data)
    define w1 where "w1 = println (StepLabel (i + 1) (label_en data)) w"
    have w1: "polls w1 = polls w"
      by (simp add: w1_def println_def)
    show ?thesis
    proof (cases "stepNumber - 1 = int i")
      case False
      with Cons.prems Inr have "steps_loop process stepNumber (Suc i) steps w1 h = Some (r, w', h')"
        by (simp add: Let_def w1_def)
      from Cons.IH [OF this] w1 show ?thesis by simp
    next
      case True
      show ?thesis
      proof (cases "process data w1 h")
        case None
        with Cons.prems Inr True show ?thesis
          by (simp add: Let_def w1_def)
      next
        case (Some res)
        obtain r2 w2 h2 where res: "res = (r2, w2, h2)"
          by (cases res) auto
        from assms(1) Some res have p2: "polls w2 = polls w1"
          unfolding process_effect_def by blast
        show ?thesis
        proof (cases r2)
          case None
          with Cons.prems Inr True Some res
          have "steps_loop process stepNumber (Suc i) steps w2 h2 = Some (r, w', h')"
            by (simp add: Let_def w1_def)
          from Cons.IH [OF this] p2 w1 show ?thesis by simp
        next
          case (Some err)
          with Cons.prems Inr True \<open>process data w1 h = Some res\<close> res have "w' = w2"
            by (simp add: Let_def w1_def)
          with p2 w1 show ?thesis by simp
        qed
      qed
    qed
  qed
qed

lemma create_finish_polls: "create_finish e h w = (r, w') \<Longrightarrow> polls w' = polls w"
  by (auto simp: create_finish_def Let_def println_def
      split: sum.splits option.splits prod.splits go_error.splits)

lemma create_iteration_polls:
  assumes "create_iteration e w = Some (r, w')"
  shows "polls w' = Suc (polls w)"
proof (cases "getVaultTxSteps e w")
  case (Inl err)
  with assms show ?thesis
    by (auto simp: create_iteration_def)
next
  case (Inr vaultSteps)
  define w0 where "w0 = w\<lparr>polls := Suc (polls w)\<rparr>"
  show ?thesis
  proof (cases "create_steps e (StepNumber vaultSteps) 0 (Steps vaultSteps) w0 []")
    case None
    with assms Inr show ?thesis
      by (simp add: create_iteration_def Let_def w0_def)
  next
    case (Some res)
    obtain r1 w1 h1 where res: "res = (r1, w1, h1)"
      by (cases res) auto
    from Some res have "polls w1 = polls w0"
      using steps_loop_polls [OF process_effect_create] by (simp add: create_steps_loop)
    then have p1: "polls w1 = Suc (polls w)"
      by (simp add: w0_def)
    show ?thesis
    proof (cases r1)
      case (Some err)
      with assms Inr \<open>create_steps e (StepNumber vaultSteps) 0 (Steps vaultSteps) w0 [] = Some res\<close>
        res p1 show ?thesis
        by (simp add: create_iteration_def Let_def w0_def)
    next
      case None
      with assms Inr \<open>create_steps e (StepNumber vaultSteps) 0 (Steps vaultSteps) w0 [] = Some res\<close>
        res p1 show ?thesis
        by (auto simp: create_iteration_def Let_def w0_def split: if_splits
            dest: create_finish_polls)
    qed
  qed
qed

text \<open>
  The loop of \<open>CreateVaultExample\<close> asks for one plan in each iteration, so the number
  of plans requested counts the iterations: when no fatal error occurs they are
  \<open>numOfSteps - stepNumber + 1\<close> from \<open>s = 0\<close>, with the bounds of the first plan.
\<close>

lemma create_loop_polls:
  "create_loop e numOfSteps stepNumber s w = Some (None, w') \<Longrightarrow>
   polls w' = polls w + nat (numOfSteps - stepNumber + 1 - s)"
proof (induction e numOfSteps stepNumber s w rule: create_loop.induct)
  case (1 e numOfSteps stepNumber s w)
  show ?case
  proof (cases "s \<le> numOfSteps - stepNumber")
    case False
    with "1.prems" show ?thesis
      by (simp add: create_loop.simps)
  next
    case True
    show ?thesis
    proof (cases "create_iteration e w")
      case None
      with "1.prems" True show ?thesis
        by (simp add: create_loop.simps)
    next
      case (Some res)
      obtain r1 w1 where res: "res = (r1, w1)"
        by (cases res) auto
      from Some res have p1: "polls w1 = Suc (polls w)"
        by (simp add: create_iteration_polls)
      show ?thesis
      proof (cases r1)
        case (Some err)
        with "1.prems" True \<open>create_iteration e w = Some res\<close> res show ?thesis
          by (simp add: create_loop.simps)
      next
        case None
        with "1.prems" True Some res
        have run: "create_loop e numOfSteps stepNumber (s + 1) w1 = Some (None, w')"
          by (simp add: create_loop.simps)
        from "1.IH" [OF True Some res [symmetric] None run] p1 True show ?thesis
          by simp
      qed
    qed
  qed
qed

lemma CreateVaultExample_polls:
  assumes "getVaultTxSteps e w = Inr plan" and "Steps plan \<noteq> []"
    and "StepNumber plan \<le> NumberOfSteps plan"
    and "CreateVaultExample e w = Some (None, w')"
  shows "polls w' = Suc (polls w) + nat (NumberOfSteps plan - StepNumber plan + 1)"
  using assms create_loop_polls [of e "NumberOfSteps plan" "StepNumber plan" 0
      "w\<lparr>polls := Suc (polls w)\<rparr>" w']
  by (simp add: CreateVaultExample_def Let_def)

lemmas scenario_defs = cooperative_def advancing_plan_def three_steps_def plan_step_def fresh_world_def

lemma Atoi_zero: "Atoi ''0'' = Some 0"
  by (simp add: Atoi_def atoi_loop_def is_digit_def digit_of_def)

lemma SetString10_zero: "SetString10 ''0'' = Some 0"
  by (simp add: SetString10_def atoi_loop_def is_digit_def digit_of_def)

lemma cooperative_wait:
  "0 < maxWaitTime \<Longrightarrow>
   waitForTransactionReceipt (\<lambda>k. ReceiptFound r) (\<lambda>k. 0) maxWaitTime checkInterval t =
     Some (Inr r, t)"
  by (simp add: waitForTransactionReceipt_def wait_loop_found)

lemma repay_run:
  "VaultDebtRepayExample cooperative fresh_world =
     Some (None,
       \<lparr>clock = 0,
        broadcast =
          [(\<lparr>tx_nonce = 0, tx_to = ''0xC0'', tx_value = 0, tx_gas = 100000,
             tx_gasPrice = 110, tx_data = ''0x01''\<rparr>, ''0x01''),
           (\<lparr>tx_nonce = 1, tx_to = ''0xC0'', tx_value = 0, tx_gas = 100000,
             tx_gasPrice = 110, tx_data = ''0x02''\<rparr>, ''0x02'')],
        logfile = Holds
          [\<lparr>Timestamp = ''2024-01-01T00:00:00Z'',
             Tx = \<lparr>From = ''0xA'', To = ''0xC0'', Value = 0, Gas = 100000,
                    GasPrice = 110, Nonce = 0, ChainID = 1, Data = ''0x01''\<rparr>,
             TxHash = ''0x01'', VaultID = 0\<rparr>,
           \<lparr>Timestamp = ''2024-01-01T00:00:00Z'',
             Tx = \<lparr>From = ''0xA'', To = ''0xC0'', Value = 0, Gas = 100000,
                    GasPrice = 110, Nonce = 1, ChainID = 1, Data = ''0x02''\<rparr>,
             TxHash = ''0x02'', VaultID = 0\<rparr>],
        console =
          [StepLabel 1 ''Approve'', Processing, Mined ''0x01'' 100,
           StepLabel 2 ''Join'', StepLabel 3 ''Repay'',
           StepLabel 1 ''Approve'', StepLabel 2 ''Join'', Processing,
           Mined ''0x02'' 100, StepLabel 3 ''Repay''],
        polls = 3\<rparr>)"
  by (simp add: VaultDebtRepayExample_def repay_loop.simps repay_process_def Let_def println_def
      SetString10_zero cooperative_wait second_def SaveTransactionDetails_def label_en_def
      scenario_defs uint64_def)














lemma create_run:
  "CreateVaultExample cooperative fresh_world =
     Some (None,
       \<lparr>clock = 0,
        broadcast =
          [(\<lparr>tx_nonce = 0, tx_to = ''0xC0'', tx_value = 0, tx_gas = 100000,
             tx_gasPrice = 100, tx_data = ''0x01''\<rparr>, ''0x01''),
           (\<lparr>tx_nonce = 1, tx_to = ''0xC0'', tx_value = 0, tx_gas = 100000,
             tx_gasPrice = 100, tx_data = ''0x02''\<rparr>, ''0x02''),
           (\<lparr>tx_nonce = 2, tx_to = ''0xC0'', tx_value = 0, tx_gas = 100000,
             tx_gasPrice = 100, tx_data = ''0x03''\<rparr>, ''0x03'')],
        logfile = Holds
          [\<lparr>Timestamp = ''2024-01-01T00:00:00Z'',
             Tx = \<lparr>From = ''0xA'', To = ''0xC0'', Value = 0, Gas = 100000,
                    GasPrice = 100, Nonce = 0, ChainID = 1, Data = ''0x01''\<rparr>,
             TxHash = ''0x01'', VaultID = - 1\<rparr>,
           \<lparr>Timestamp = ''2024-01-01T00:00:00Z'',
             Tx = \<lparr>From = ''0xA'', To = ''0xC0'', Value = 0, Gas = 100000,
                    GasPrice = 100, Nonce = 1, ChainID = 1, Data = ''0x02''\<rparr>,
             TxHash = ''0x02'', VaultID = - 1\<rparr>,
           \<lparr>Timestamp = ''2024-01-01T00:00:00Z'',
             Tx = \<lparr>From = ''0xA'', To = ''0xC0'', Value = 0, Gas = 100000,
                    GasPrice = 100, Nonce = 2, ChainID = 1, Data = ''0x03''\<rparr>,
             TxHash = ''0x03'', VaultID = 0\<rparr>],
        console =
          [StepLabel 1 ''Approve'', Processing, TransactionSent ''0x01'',
           Mined ''0x01'' 100, StepLabel 2 ''Join'', StepLabel 3 ''Repay'',
           StepLabel 1 ''Approve'', StepLabel 2 ''Join'', Processing,
           TransactionSent ''0x02'', Mined ''0x02'' 100,
           StepLabel 3 ''Repay'', StepLabel 1 ''Approve'',
           StepLabel 2 ''Join'', StepLabel 3 ''Repay'', Processing,
           TransactionSent ''0x03'', Mined ''0x03'' 100,
           VaultCreated ''0x03'' 0, DetailsUpdated],
        polls = 4\<rparr>)"
  by (simp add: CreateVaultExample_def create_loop.simps create_iteration_def create_process_def
      create_finish_def PatchLastVaultId_def Let_def println_def Atoi_zero cooperative_wait
      second_def SaveTransactionDetails_def label_en_def scenario_defs uint64_def)

text \<open>
  C4 (the code at the failing input). The first plan has three steps and the current
  step is 1, so three iterations are due. \<open>CreateVaultExample\<close> makes them (one plan
  request before the loop and three in it). \<open>VaultDebtRepayExample\<close> stops after two:
  its loop condition reads the bounds of the latest plan, whose current step has
  moved on. The third step is never broadcast.
\<close>

theorem repay_loop_stops_early:
  "getVaultTxSteps cooperative fresh_world =
     Inr \<lparr>NumberOfSteps = 3, StepNumber = 1, Steps = three_steps\<rparr> \<and>
   (\<exists>w'. VaultDebtRepayExample cooperative fresh_world = Some (None, w') \<and>
         polls w' = polls fresh_world + 1 + 2 \<and>
         map snd (broadcast w') = [''0x01'', ''0x02'']) \<and>
   (\<exists>w'. CreateVaultExample cooperative fresh_world = Some (None, w') \<and>
         polls w' = polls fresh_world + 1 + 3 \<and>
         map snd (broadcast w') = [''0x01'', ''0x02'', ''0x03''])"
proof -
  have "getVaultTxSteps cooperative fresh_world =
     Inr \<lparr>NumberOfSteps = 3, StepNumber = 1, Steps = three_steps\<rparr>"
    by (simp add: cooperative_def advancing_plan_def fresh_world_def)
  moreover have "\<exists>w'. VaultDebtRepayExample cooperative fresh_world = Some (None, w') \<and>
         polls w' = polls fresh_world + 1 + 2 \<and>
         map snd (broadcast w') = [''0x01'', ''0x02'']"
    unfolding repay_run by (simp add: fresh_world_def)
  moreover have "\<exists>w'. CreateVaultExample cooperative fresh_world = Some (None, w') \<and>
         polls w' = polls fresh_world + 1 + 3 \<and>
         map snd (broadcast w') = [''0x01'', ''0x02'', ''0x03'']"
    unfolding create_run by (simp add: fresh_world_def)
  ultimately show ?thesis
    by (intro conjI)
qed

end
